theory Spec2Isabelle
  imports Main
begin

section \<open>JavaScript strings\<close>

text \<open>
  A string is the list of its code units. The model covers the code units
  \<open>0x00..0xFF\<close> (Latin-1), on which \<open>length\<close> is the JavaScript \<open>length\<close>.
\<close>

definition NL :: char where
  "NL = CHR 0x0A"

text \<open>The white space that \<open>String.prototype.trim\<close> strips, within Latin-1.\<close>

definition isWhiteSpace :: "char \<Rightarrow> bool" where
  "isWhiteSpace c = ((of_char c :: nat) \<in> {9, 10, 11, 12, 13, 32, 160})"

definition trim :: "string \<Rightarrow> string" where
  "trim s = rev (dropWhile isWhiteSpace (rev (dropWhile isWhiteSpace s)))"

definition startsWith :: "string \<Rightarrow> string \<Rightarrow> bool" where
  "startsWith s p = (take (length p) s = p)"

text \<open>
  \<open>toLowerCase\<close> within Latin-1: \<open>A..Z\<close> and the accented capitals
  \<open>0xC0..0xDE\<close> (the multiplication sign \<open>0xD7\<close> apart) move up by 32. In
  both ranges bit 5 is clear, so adding 32 is setting that bit.
\<close>

definition lowerChar :: "char \<Rightarrow> char" where
  "lowerChar c =
     (let n = (of_char c :: nat)
      in if (65 \<le> n \<and> n \<le> 90) \<or> (192 \<le> n \<and> n \<le> 222 \<and> n \<noteq> 215)
         then (case c of Char b0 b1 b2 b3 b4 b5 b6 b7 \<Rightarrow> Char b0 b1 b2 b3 b4 True b6 b7)
         else c)"

definition toLowerCase :: "string \<Rightarrow> string" where
  "toLowerCase s = map lowerChar s"

text \<open>\<open>s.includes(sub)\<close>: \<open>sub\<close> occurs in \<open>s\<close> as a contiguous run.\<close>

fun includes_str :: "string \<Rightarrow> string \<Rightarrow> bool" where
  "includes_str [] sub = (sub = [])"
| "includes_str (c # cs) sub = (startsWith (c # cs) sub \<or> includes_str cs sub)"

text \<open>\<open>s.split("\n")\<close>: never empty, \<open>"".split("\n")\<close> is \<open>[""]\<close>.\<close>

fun split_nl :: "string \<Rightarrow> string list" where
  "split_nl [] = [Nil]"
| "split_nl (c # cs) =
     (if c = NL then [] # split_nl cs
      else (case split_nl cs of [] \<Rightarrow> [c] # [] | l # ls \<Rightarrow> (c # l) # ls))"

text \<open>\<open>xs.join(sep)\<close> on an array of strings.\<close>

fun join :: "string \<Rightarrow> string list \<Rightarrow> string" where
  "join sep [] = []"
| "join sep [x] = x"
| "join sep (x # y # ys) = x @ sep @ join sep (y # ys)"

text \<open>\<open>xs.filter(Boolean)\<close> on an array of strings drops the empty ones.\<close>

definition filterBoolean :: "string list \<Rightarrow> string list" where
  "filterBoolean xs = filter (\<lambda>l. l \<noteq> []) xs"

text \<open>
  \<open>xs.slice(0, e)\<close>: a negative end counts from the end of \<open>xs\<close>.
  \<open>xs.slice(-k)\<close> keeps the last \<open>k\<close> elements.
\<close>

definition slice0 :: "'a list \<Rightarrow> int \<Rightarrow> 'a list" where
  "slice0 xs e = (if e < 0 then take (nat (int (length xs) + e)) xs else take (nat e) xs)"

definition sliceLast :: "'a list \<Rightarrow> nat \<Rightarrow> 'a list" where
  "sliceLast xs k = drop (length xs - k) xs"

text \<open>The decimal rendering of an integer, as a template literal prints it.\<close>

definition digitChar :: "nat \<Rightarrow> char" where
  "digitChar d = ''0123456789'' ! d"

fun showNat :: "nat \<Rightarrow> string" where
  "showNat n = (if n < 10 then [digitChar n] else showNat (n div 10) @ [digitChar (n mod 10)])"

declare showNat.simps [simp del]

definition showInt :: "int \<Rightarrow> string" where
  "showInt i = (if i < 0 then CHR ''-'' # showNat (nat (- i)) else showNat (nat i))"

section \<open>Display helpers (base.ts and opencode.ts)\<close>

text \<open>
  \<open>truncate(str, maxLen)\<close>, the same text in \<open>base.ts\<close> and in
  \<open>OpenCodeEngine\<close>:
  \<^verbatim>\<open>if (str.length <= maxLen) return str; return `${str.slice(0, maxLen - 3)}...`;\<close>
\<close>

definition truncate_str :: "string \<Rightarrow> int \<Rightarrow> string" where
  "truncate_str str maxLen =
     (if int (length str) \<le> maxLen then str else slice0 str (maxLen - 3) @ ''...'')"

definition formatFilePath :: "string \<Rightarrow> string" where
  "formatFilePath filePath = truncate_str filePath 60"

definition truncatePath :: "string \<Rightarrow> string" where
  "truncatePath filePath = truncate_str filePath 60"

definition formatCommand :: "string \<Rightarrow> string" where
  "formatCommand command = ''Running: '' @ truncate_str command 50"

text \<open>\<open>isTestFile\<close> of \<open>base.ts\<close>.\<close>

definition isTestFile :: "string \<Rightarrow> bool" where
  "isTestFile filePath =
     (let lower = toLowerCase filePath
      in includes_str lower ''.test.'' \<or> includes_str lower ''.spec.''
         \<or> includes_str lower ''__tests__'' \<or> includes_str lower ''_test.go'')"

text \<open>\<open>OpenCodeEngine.isTestFile\<close>: three markers.\<close>

definition oc_isTestFile :: "string \<Rightarrow> bool" where
  "oc_isTestFile filePath =
     (let lower = toLowerCase filePath
      in includes_str lower ''.test.'' \<or> includes_str lower ''.spec.'' \<or> includes_str lower ''__tests__'')"

text \<open>
  \<open>formatCommandError(exitCode, output)\<close>:
  \<^verbatim>\<open>
  const trimmed = output.trim();
  if (!trimmed) return `Command failed with exit code ${exitCode}`;
  const lines = trimmed.split("\n").filter(Boolean);
  const snippet = lines.slice(-12).join("\n");
  return `Command failed with exit code ${exitCode}. Output:\n${snippet}`;
  \<close>
\<close>

definition formatCommandError :: "int \<Rightarrow> string \<Rightarrow> string" where
  "formatCommandError exitCode output =
     (let trimmed = trim output
      in if trimmed = [] then ''Command failed with exit code '' @ showInt exitCode
         else
           (let lines = filterBoolean (split_nl trimmed);
                snippet = join [NL] (sliceLast lines 12)
            in ''Command failed with exit code '' @ showInt exitCode
               @ ''. Output:'' @ [NL] @ snippet))"

section \<open>JSON values as JavaScript sees them\<close>

text \<open>
  The exceptions of the modelled code. \<open>JSON.parse\<close> throws \<open>SyntaxError\<close>; a
  property read on \<open>null\<close> or \<open>undefined\<close>, and a call of something that is not
  a function, throw \<open>TypeError\<close>.
\<close>

datatype exn = TypeError | SyntaxError

text \<open>
  The values \<open>JSON.parse\<close> returns. Numbers are IEEE doubles in JavaScript; the
  code only tests them for truthiness and renders them with \<open>String\<close>, so the
  number type is a parameter \<open>'n\<close> and the two operations (and the literal
  \<open>0\<close>) come with it. An object is the association list of its own
  properties, read with \<open>map_of\<close>.
\<close>

datatype 'n json =
    JNull
  | JBool bool
  | JNum 'n
  | JStr string
  | JArr "'n json list"
  | JObj "(string \<times> 'n json) list"

text \<open>A JavaScript value that may be \<open>undefined\<close> (\<open>None\<close>).\<close>

type_synonym 'n jsval = "'n json option"

record 'n numops =
  num_truthy :: "'n \<Rightarrow> bool"
  num_String :: "'n \<Rightarrow> string"
  num_zero :: 'n

definition bindE :: "exn + 'a \<Rightarrow> ('a \<Rightarrow> exn + 'b) \<Rightarrow> exn + 'b" where
  "bindE m f = (case m of Inl e \<Rightarrow> Inl e | Inr x \<Rightarrow> f x)"

text \<open>\<open>try { m } catch { h }\<close>\<close>

definition try_catch :: "exn + 'a \<Rightarrow> 'b + 'a \<Rightarrow> 'b + 'a" where
  "try_catch m h = (case m of Inl e \<Rightarrow> h | Inr x \<Rightarrow> Inr x)"

text \<open>
  Reading a property. None of the names this code reads (\<open>type\<close>, \<open>name\<close>,
  \<open>input\<close>, \<open>command\<close>, ...) is a member of a prototype, so on a string, a number,
  a boolean or an array the read gives \<open>undefined\<close>.
\<close>

fun readProp :: "'n json \<Rightarrow> string \<Rightarrow> 'n jsval" where
  "readProp (JObj fs) k = map_of fs k"
| "readProp _ k = None"

definition nullish :: "'n jsval \<Rightarrow> bool" where
  "nullish v = (v = None \<or> v = Some JNull)"

text \<open>\<open>v?.k\<close>\<close>

definition getq :: "'n jsval \<Rightarrow> string \<Rightarrow> 'n jsval" where
  "getq v k = (case v of None \<Rightarrow> None | Some j \<Rightarrow> readProp j k)"

text \<open>\<open>v.k\<close>\<close>

definition get :: "'n jsval \<Rightarrow> string \<Rightarrow> exn + 'n jsval" where
  "get v k = (if nullish v then Inl TypeError else Inr (getq v k))"

fun truthy :: "'n numops \<Rightarrow> 'n jsval \<Rightarrow> bool" where
  "truthy N None = False"
| "truthy N (Some JNull) = False"
| "truthy N (Some (JBool b)) = b"
| "truthy N (Some (JNum n)) = num_truthy N n"
| "truthy N (Some (JStr s)) = (s \<noteq> [])"
| "truthy N (Some (JArr xs)) = True"
| "truthy N (Some (JObj fs)) = True"

text \<open>\<open>a || b\<close>, and \<open>a || d\<close> for a literal \<open>d\<close>, whose value is never \<open>undefined\<close>.\<close>

definition js_or :: "'n numops \<Rightarrow> 'n jsval \<Rightarrow> 'n jsval \<Rightarrow> 'n jsval" where
  "js_or N a b = (if truthy N a then a else b)"

definition js_or_lit :: "'n numops \<Rightarrow> 'n jsval \<Rightarrow> 'n json \<Rightarrow> 'n json" where
  "js_or_lit N a d = (case a of None \<Rightarrow> d | Some j \<Rightarrow> if truthy N a then j else d)"

text \<open>\<open>v.toLowerCase()\<close>: only a string has the method.\<close>

fun call_toLowerCase :: "'n json \<Rightarrow> exn + string" where
  "call_toLowerCase (JStr s) = Inr (toLowerCase s)"
| "call_toLowerCase _ = Inl TypeError"

text \<open>\<open>v?.toLowerCase()\<close>: \<open>undefined\<close> on \<open>null\<close> and \<open>undefined\<close>.\<close>

definition callq_toLowerCase :: "'n jsval \<Rightarrow> exn + string option" where
  "callq_toLowerCase v =
     (case v of None \<Rightarrow> Inr None | Some j \<Rightarrow>
        if j = JNull then Inr None else bindE (call_toLowerCase j) (\<lambda>s. Inr (Some s)))"

text \<open>\<open>a || b\<close> where \<open>a\<close> is a string or \<open>undefined\<close> and \<open>b\<close> a string.\<close>

definition orStr :: "exn + string option \<Rightarrow> exn + string \<Rightarrow> exn + string" where
  "orStr a b = bindE a (\<lambda>v. case v of None \<Rightarrow> b | Some s \<Rightarrow> if s \<noteq> [] then Inr s else b)"

text \<open>\<open>v.split("\n")\<close>: only a string has the method.\<close>

fun call_split :: "'n json \<Rightarrow> exn + string list" where
  "call_split (JStr s) = Inr (split_nl s)"
| "call_split _ = Inl TypeError"

text \<open>
  \<open>String(v)\<close>. An object of \<open>JSON.parse\<close> renders as \<open>[object Object]\<close>, unless it
  has an own property \<open>toString\<close>: that one is not callable, \<open>valueOf\<close> returns the
  object, and the conversion throws \<open>TypeError\<close>. An array renders its elements
  joined by commas, \<open>null\<close> as the empty string.
\<close>

fun stringable :: "'n json \<Rightarrow> bool" where
  "stringable (JObj fs) = (map_of fs ''toString'' = None)"
| "stringable (JArr xs) = (\<forall>x \<in> set xs. stringable x)"
| "stringable _ = True"

fun str_of :: "'n numops \<Rightarrow> 'n json \<Rightarrow> string" where
  "str_of N JNull = ''null''"
| "str_of N (JBool b) = (if b then ''true'' else ''false'')"
| "str_of N (JNum n) = num_String N n"
| "str_of N (JStr s) = s"
| "str_of N (JArr xs) = join '','' (map (\<lambda>x. if x = JNull then [] else str_of N x) xs)"
| "str_of N (JObj fs) = ''[object Object]''"

definition js_String :: "'n numops \<Rightarrow> 'n json \<Rightarrow> exn + string" where
  "js_String N v = (if stringable v then Inr (str_of N v) else Inl TypeError)"

text \<open>\<open>vs.join(sep)\<close> on an array of values.\<close>

definition js_join :: "'n numops \<Rightarrow> string \<Rightarrow> 'n json list \<Rightarrow> exn + string" where
  "js_join N sep vs =
     (if \<forall>x \<in> set vs. stringable x
      then Inr (join sep (map (\<lambda>x. if x = JNull then [] else str_of N x) vs))
      else Inl TypeError)"

section \<open>Progress events (types.ts)\<close>

text \<open>
  \<open>TodoItem\<close>: \<open>id\<close> and \<open>content\<close> are results of \<open>String\<close>; \<open>status\<close> is whatever
  truthy value the payload carried, or \<open>"pending"\<close>.
\<close>

record 'n TodoItem =
  todo_id :: string
  todo_content :: string
  todo_status :: "'n json"

record DiffInfo =
  diff_filePath :: string
  oldLines :: "string list option"
  newLines :: "string list option"

text \<open>\<open>StepInfo\<close>: an absent field is \<open>None\<close>.\<close>

record 'n StepInfo =
  step :: string
  toolOutput :: "string option"
  diff :: "DiffInfo option"
  todos :: "'n TodoItem list option"

text \<open>The step names the two classifiers can return.\<close>

definition canonicalSteps :: "string list" where
  "canonicalSteps =
     [''Thinking'', ''Reading code'', ''Implementing'', ''Writing tests'', ''Running command'',
      ''Linting'', ''Testing'', ''Committing'', ''Staging'', ''Planning'']"

section \<open>The generic classifier (base.ts)\<close>

record ClaudeTool =
  ct_toolName :: string
  ct_filePath :: string
  ct_command :: string

text \<open>
  The loop of \<open>extractToolFromClaudeFormat\<close> over \<open>message.content\<close>:
  \<^verbatim>\<open>
  for (const item of content) {
    if (item.type === "tool_use" && item.name) {
      const toolName = (item.name as string).toLowerCase();
      const input = (item.input as Record<string, unknown>) || {};
      const filePath = ((input.file_path || input.path || "") as string).toLowerCase();
      const command = ((input.command || "") as string).toLowerCase();
      return { toolName, filePath, command };
    }
  }
  return null;
  \<close>
\<close>

definition toolOfItem :: "'n numops \<Rightarrow> 'n json \<Rightarrow> 'n json \<Rightarrow> exn + ClaudeTool" where
  "toolOfItem N item nm =
     bindE (call_toLowerCase nm) (\<lambda>tn.
       let input = Some (js_or_lit N (getq (Some item) ''input'') (JObj []))
       in bindE (call_toLowerCase
                   (js_or_lit N (js_or N (getq input ''file_path'') (getq input ''path'')) (JStr [])))
            (\<lambda>fp.
          bindE (call_toLowerCase (js_or_lit N (getq input ''command'') (JStr []))) (\<lambda>cmd.
            Inr \<lparr>ct_toolName = tn, ct_filePath = fp, ct_command = cmd\<rparr>)))"

fun findToolUse :: "'n numops \<Rightarrow> 'n json list \<Rightarrow> exn + ClaudeTool option" where
  "findToolUse N [] = Inr None"
| "findToolUse N (item # rest) =
     (case get (Some item) ''type'' of
        Inl e \<Rightarrow> Inl e
      | Inr ty \<Rightarrow>
          if ty = Some (JStr ''tool_use'') \<and> truthy N (getq (Some item) ''name'')
          then (case getq (Some item) ''name'' of
                  Some nm \<Rightarrow> bindE (toolOfItem N item nm) (\<lambda>ct. Inr (Some ct))
                | None \<Rightarrow> findToolUse N rest)
          else findToolUse N rest)"

text \<open>
  \<open>extractToolFromClaudeFormat(parsed)\<close>:
  \<^verbatim>\<open>
  if (parsed.type !== "assistant") return null;
  const message = parsed.message as Record<string, unknown> | undefined;
  if (!message?.content) return null;
  const content = message.content as Array<Record<string, unknown>>;
  if (!Array.isArray(content)) return null;
  \<close>
  and then the loop.
\<close>

definition extractToolFromClaudeFormat ::
  "'n numops \<Rightarrow> 'n jsval \<Rightarrow> exn + ClaudeTool option" where
  "extractToolFromClaudeFormat N parsed =
     bindE (get parsed ''type'') (\<lambda>ty.
       if ty \<noteq> Some (JStr ''assistant'') then Inr None
       else
         (let content = getq (getq parsed ''message'') ''content''
          in if \<not> truthy N content then Inr None
             else (case content of
                     Some (JArr items) \<Rightarrow> findToolUse N items
                   | _ \<Rightarrow> Inr None)))"

text \<open>
  The normalised fields of a line, as \<open>detectStepFromOutput\<close> computes them before
  it classifies: from the Claude shape when \<open>extractToolFromClaudeFormat\<close> found a
  tool, else from the flat shape:
  \<^verbatim>\<open>
  toolName = parsed.tool?.toLowerCase() || parsed.name?.toLowerCase()
             || parsed.tool_name?.toLowerCase() || "";
  command = parsed.command?.toLowerCase() || "";
  filePath = (parsed.file_path || parsed.filePath || parsed.path || "").toLowerCase();
  description = (parsed.description || "").toLowerCase();
  \<close>
\<close>

record ToolFields =
  tf_toolName :: string
  tf_filePath :: string
  tf_command :: string
  tf_description :: string

definition lowerField :: "'n jsval \<Rightarrow> string \<Rightarrow> exn + string option" where
  "lowerField parsed k = bindE (get parsed k) callq_toLowerCase"

definition flatFields :: "'n numops \<Rightarrow> 'n jsval \<Rightarrow> exn + ToolFields" where
  "flatFields N parsed =
     bindE (orStr (lowerField parsed ''tool'')
              (orStr (lowerField parsed ''name'')
                 (orStr (lowerField parsed ''tool_name'') (Inr [])))) (\<lambda>tn.
     bindE (orStr (lowerField parsed ''command'') (Inr [])) (\<lambda>cmd.
     bindE (call_toLowerCase
              (js_or_lit N
                 (js_or N (getq parsed ''file_path'')
                    (js_or N (getq parsed ''filePath'') (getq parsed ''path'')))
                 (JStr []))) (\<lambda>fp.
     bindE (call_toLowerCase (js_or_lit N (getq parsed ''description'') (JStr []))) (\<lambda>ds.
       Inr \<lparr>tf_toolName = tn, tf_filePath = fp, tf_command = cmd, tf_description = ds\<rparr>))))"

definition toolFields :: "'n numops \<Rightarrow> 'n jsval \<Rightarrow> ClaudeTool option \<Rightarrow> exn + ToolFields" where
  "toolFields N parsed claudeTool =
     (case claudeTool of
        Some ct \<Rightarrow>
          Inr \<lparr>tf_toolName = ct_toolName ct, tf_filePath = ct_filePath ct,
               tf_command = ct_command ct, tf_description = []\<rparr>
      | None \<Rightarrow> flatFields N parsed)"

text \<open>
  \<^verbatim>\<open>
  const rawCommand = claudeTool?.command || parsed.command || "";
  const toolOutput = rawCommand ? formatCommand(rawCommand) : undefined;
  \<close>
  \<open>formatCommand\<close> is applied to a string: the three branches that echo the command
  are entered with a non-empty lowered \<open>command\<close> only, which is
  \<open>claudeTool.command\<close> itself in the Claude shape and the lowered
  \<open>parsed.command\<close>, a string, in the flat shape (lemma \<open>rawCommand_is_string\<close>).
  On any other value the model raises \<open>TypeError\<close>.
\<close>

definition rawCommand :: "'n numops \<Rightarrow> 'n jsval \<Rightarrow> ClaudeTool option \<Rightarrow> 'n json" where
  "rawCommand N parsed claudeTool =
     js_or_lit N
       (js_or N (case claudeTool of Some ct \<Rightarrow> Some (JStr (ct_command ct)) | None \<Rightarrow> None)
          (getq parsed ''command''))
       (JStr [])"

definition commandEcho :: "'n numops \<Rightarrow> 'n json \<Rightarrow> exn + string option" where
  "commandEcho N raw =
     (if truthy N (Some raw)
      then (case raw of JStr s \<Rightarrow> Inr (Some (formatCommand s)) | _ \<Rightarrow> Inl TypeError)
      else Inr None)"

definition pathEcho :: "string \<Rightarrow> string option" where
  "pathEcho fp = (if fp \<noteq> [] then Some (formatFilePath fp) else None)"

text \<open>
  The decision of \<open>detectStepFromOutput\<close>, from \<open>// No tool detected\<close> to the
  final \<open>return null\<close>, in the order of the source. \<open>writeRules\<close> is the tail after
  the bash block, reached when the block is skipped or none of its rules returns:
  \<^verbatim>\<open>
  if (isWriteOperation && isTestFile(filePath)) { ... return { step: "Writing tests", toolOutput }; }
  if (isWriteOperation) { ... return { step: "Implementing", toolOutput }; }
  return null;
  \<close>
\<close>

definition writeRules :: "ToolFields \<Rightarrow> 'n StepInfo option" where
  "writeRules tf =
     (let tn = tf_toolName tf; fp = tf_filePath tf;
          isWriteOperation = (tn = ''write'' \<or> tn = ''edit'')
      in
      if isWriteOperation \<and> isTestFile fp then
        Some \<lparr>step = ''Writing tests'', toolOutput = pathEcho fp, diff = None, todos = None\<rparr>
      else if isWriteOperation then
        Some \<lparr>step = ''Implementing'', toolOutput = pathEcho fp, diff = None, todos = None\<rparr>
      else None)"

text \<open>
  The block guarded by \<open>isBashOperation || command\<close>; \<open>None\<close>: none of its rules
  returned.
\<close>

definition bashRules ::
  "'n numops \<Rightarrow> 'n json \<Rightarrow> ToolFields \<Rightarrow> exn + 'n StepInfo option" where
  "bashRules N raw tf =
     (let cmd = tf_command tf; ds = tf_description tf;
          isBashOperation = (tf_toolName tf = ''bash'')
      in
      if includes_str cmd ''git commit'' \<or> includes_str ds ''git commit'' then
        Inr (Some \<lparr>step = ''Committing'', toolOutput = None, diff = None, todos = None\<rparr>)
      else if includes_str cmd ''git add'' \<or> includes_str ds ''git add'' then
        Inr (Some \<lparr>step = ''Staging'', toolOutput = None, diff = None, todos = None\<rparr>)
      else if includes_str cmd ''lint'' \<or> includes_str cmd ''eslint''
              \<or> includes_str cmd ''biome'' \<or> includes_str cmd ''prettier'' then
        bindE (commandEcho N raw) (\<lambda>out.
          Inr (Some \<lparr>step = ''Linting'', toolOutput = out, diff = None, todos = None\<rparr>))
      else if includes_str cmd ''vitest'' \<or> includes_str cmd ''jest''
              \<or> includes_str cmd ''bun test'' \<or> includes_str cmd ''npm test''
              \<or> includes_str cmd ''pytest'' \<or> includes_str cmd ''go test'' then
        bindE (commandEcho N raw) (\<lambda>out.
          Inr (Some \<lparr>step = ''Testing'', toolOutput = out, diff = None, todos = None\<rparr>))
      else if isBashOperation \<and> cmd \<noteq> [] then
        bindE (commandEcho N raw) (\<lambda>out.
          Inr (Some \<lparr>step = ''Running command'', toolOutput = out, diff = None, todos = None\<rparr>))
      else Inr None)"

definition classifyFields ::
  "'n numops \<Rightarrow> 'n json \<Rightarrow> ToolFields \<Rightarrow> exn + 'n StepInfo option" where
  "classifyFields N raw tf =
     (let tn = tf_toolName tf; fp = tf_filePath tf; cmd = tf_command tf;
          isReadOperation = (tn = ''read'' \<or> tn = ''glob'' \<or> tn = ''grep'');
          isBashOperation = (tn = ''bash'')
      in
      if tn = [] \<and> cmd = [] then Inr None
      else if isReadOperation then
        Inr (Some \<lparr>step = ''Reading code'', toolOutput = pathEcho fp, diff = None, todos = None\<rparr>)
      else if isBashOperation \<or> cmd \<noteq> [] then
        bindE (bashRules N raw tf) (\<lambda>r.
          case r of Some info \<Rightarrow> Inr (Some info) | None \<Rightarrow> Inr (writeRules tf))
      else Inr (writeRules tf))"

text \<open>
  \<open>detectStepFromOutput(line)\<close>. \<open>parse\<close> is \<open>JSON.parse\<close>; everything after the
  fast path runs inside \<open>try { ... } catch { return null; }\<close>.
\<close>

definition detectStepBody ::
  "'n numops \<Rightarrow> (string \<Rightarrow> exn + 'n json) \<Rightarrow> string \<Rightarrow> exn + 'n StepInfo option" where
  "detectStepBody N parse trimmed =
     bindE (parse trimmed) (\<lambda>p.
       let parsed = Some p
       in bindE (extractToolFromClaudeFormat N parsed) (\<lambda>claudeTool.
            bindE (toolFields N parsed claudeTool) (\<lambda>tf.
              classifyFields N (rawCommand N parsed claudeTool) tf)))"

definition detectStepFromOutput ::
  "'n numops \<Rightarrow> (string \<Rightarrow> exn + 'n json) \<Rightarrow> string \<Rightarrow> exn + 'n StepInfo option" where
  "detectStepFromOutput N parse line =
     (let trimmed = trim line
      in if \<not> startsWith trimmed ''{'' then Inr None
         else try_catch (detectStepBody N parse trimmed) (Inr None))"

section \<open>The OpenCode engine (opencode.ts)\<close>

text \<open>
  The callback of \<open>input.todos.map\<close>:
  \<^verbatim>\<open>
  (t) => ({
    id: String(t.id || ""),
    content: String(t.content || ""),
    status: (t.status as "pending" | "in_progress" | "completed") || "pending",
  })
  \<close>
  \<open>t.id\<close> throws on a \<open>null\<close> entry.
\<close>

definition mapTodo :: "'n numops \<Rightarrow> 'n json \<Rightarrow> exn + 'n TodoItem" where
  "mapTodo N t =
     bindE (get (Some t) ''id'') (\<lambda>i.
     bindE (js_String N (js_or_lit N i (JStr []))) (\<lambda>i'.
     bindE (js_String N (js_or_lit N (getq (Some t) ''content'') (JStr []))) (\<lambda>c'.
       Inr \<lparr>todo_id = i', todo_content = c',
            todo_status = js_or_lit N (getq (Some t) ''status'') (JStr ''pending'')\<rparr>)))"

fun mapTodos :: "'n numops \<Rightarrow> 'n json list \<Rightarrow> exn + 'n TodoItem list" where
  "mapTodos N [] = Inr []"
| "mapTodos N (t # ts) =
     (case mapTodo N t of
        Inl e \<Rightarrow> Inl e
      | Inr x \<Rightarrow> (case mapTodos N ts of Inl e \<Rightarrow> Inl e | Inr xs \<Rightarrow> Inr (x # xs)))"

text \<open>
  \<open>createDiff(filePath, oldContent, newContent, maxLines = 4)\<close>:
  \<^verbatim>\<open>
  if (!newContent && !oldContent) return undefined;
  const oldLines = oldContent
    ? oldContent.split("\n").slice(0, maxLines).map((l) => this.truncate(l, 70)) : undefined;
  const newLines = newContent
    ? newContent.split("\n").slice(0, maxLines).map((l) => this.truncate(l, 70)) : undefined;
  return { filePath, oldLines, newLines };
  \<close>
  The contents are typed \<open>string\<close> but arrive unchecked from the payload, so they
  are values here and \<open>split\<close> throws on a truthy one that is not a string.
\<close>

definition previewLines :: "'n numops \<Rightarrow> 'n json \<Rightarrow> int \<Rightarrow> exn + string list option" where
  "previewLines N c maxLines =
     (if truthy N (Some c)
      then bindE (call_split c) (\<lambda>ls.
             Inr (Some (map (\<lambda>l. truncate_str l 70) (slice0 ls maxLines))))
      else Inr None)"

definition createDiff ::
  "'n numops \<Rightarrow> string \<Rightarrow> 'n json \<Rightarrow> 'n json \<Rightarrow> int \<Rightarrow> exn + DiffInfo option" where
  "createDiff N fp oldContent newContent maxLines =
     (if \<not> truthy N (Some newContent) \<and> \<not> truthy N (Some oldContent) then Inr None
      else
        bindE (previewLines N oldContent maxLines) (\<lambda>ol.
        bindE (previewLines N newContent maxLines) (\<lambda>nl.
          Inr (Some \<lparr>diff_filePath = fp, oldLines = ol, newLines = nl\<rparr>))))"

text \<open>\<open>this.currentTodos.length > 0 ? this.currentTodos : undefined\<close>\<close>

definition carryTodos :: "'n TodoItem list \<Rightarrow> 'n TodoItem list option" where
  "carryTodos ts = (if length ts > 0 then Some ts else None)"

text \<open>\<open>command ? `Running: ${this.truncate(command, 50)}` : undefined\<close>\<close>

definition oc_commandEcho :: "string \<Rightarrow> string option" where
  "oc_commandEcho cmd = (if cmd \<noteq> [] then Some (''Running: '' @ truncate_str cmd 50) else None)"

text \<open>
  The todo-write rule:
  \<^verbatim>\<open>
  if (toolName === "todowrite" || toolName === "mcp_todowrite") {
    if (input.todos && Array.isArray(input.todos)) {
      this.currentTodos = (input.todos as Array<Record<string, unknown>>).map(...);
      return { step: "Planning", todos: this.currentTodos };
    }
  }
  \<close>
  \<open>Some new\<close>: the rule assigns \<open>new\<close> and returns; \<open>None\<close>: control goes on.
\<close>

definition todoWrite ::
  "'n numops \<Rightarrow> string \<Rightarrow> 'n jsval \<Rightarrow> exn + 'n TodoItem list option" where
  "todoWrite N tn input =
     (if tn = ''todowrite'' \<or> tn = ''mcp_todowrite'' then
        (let tds = getq input ''todos''
         in if truthy N tds
            then (case tds of
                    Some (JArr ts) \<Rightarrow> bindE (mapTodos N ts) (\<lambda>new. Inr (Some new))
                  | _ \<Rightarrow> Inr None)
            else Inr None)
      else Inr None)"

text \<open>The rules of the \<open>if (toolName === "bash")\<close> block, which always returns.\<close>

definition oc_bashRules :: "'n TodoItem list \<Rightarrow> string \<Rightarrow> 'n StepInfo" where
  "oc_bashRules currentTodos cmd =
     (if includes_str cmd ''git commit'' then
        \<lparr>step = ''Committing'', toolOutput = None, diff = None,
         todos = carryTodos currentTodos\<rparr>
      else if includes_str cmd ''git add'' then
        \<lparr>step = ''Staging'', toolOutput = None, diff = None,
         todos = carryTodos currentTodos\<rparr>
      else if includes_str cmd ''lint'' \<or> includes_str cmd ''eslint''
              \<or> includes_str cmd ''biome'' then
        \<lparr>step = ''Linting'', toolOutput = oc_commandEcho cmd, diff = None,
         todos = carryTodos currentTodos\<rparr>
      else if includes_str cmd ''test'' \<or> includes_str cmd ''vitest''
              \<or> includes_str cmd ''jest'' then
        \<lparr>step = ''Testing'', toolOutput = oc_commandEcho cmd, diff = None,
         todos = carryTodos currentTodos\<rparr>
      else
        \<lparr>step = ''Running command'', toolOutput = oc_commandEcho cmd, diff = None,
         todos = carryTodos currentTodos\<rparr>)"

text \<open>
  The rest of the tool-call block, from \<open>const rawFilePath\<close> on. It reads
  \<open>this.currentTodos\<close> and does not assign it. \<open>None\<close>: no rule returned.
\<close>

definition toolRules ::
  "'n numops \<Rightarrow> 'n TodoItem list \<Rightarrow> string \<Rightarrow> 'n jsval \<Rightarrow> exn + 'n StepInfo option" where
  "toolRules N currentTodos tn input =
     (case js_or_lit N (js_or N (getq input ''file_path'') (getq input ''path'')) (JStr []) of
        JStr rawFilePath \<Rightarrow>
          (let fp = toLowerCase rawFilePath
           in bindE (call_toLowerCase (js_or_lit N (getq input ''command'') (JStr []))) (\<lambda>cmd.
                let oldContent = js_or_lit N (js_or N (getq input ''old_string'')
                                                (getq input ''oldString'')) (JStr []);
                    newContent = js_or_lit N (js_or N (getq input ''content'')
                                                (js_or N (getq input ''new_string'')
                                                   (getq input ''newString''))) (JStr [])
                in
                if tn = ''read'' \<or> tn = ''glob'' \<or> tn = ''grep'' then
                  Inr (Some \<lparr>step = ''Reading code'',
                             toolOutput = (if fp \<noteq> [] then Some (truncatePath fp) else None),
                             diff = None, todos = carryTodos currentTodos\<rparr>)
                else if tn = ''write'' \<or> tn = ''edit'' then
                  (let isTest = oc_isTestFile fp
                   in bindE (createDiff N rawFilePath oldContent newContent 4) (\<lambda>d.
                        Inr (Some \<lparr>step = (if isTest then ''Writing tests'' else ''Implementing''),
                                   toolOutput = None, diff = d,
                                   todos = carryTodos currentTodos\<rparr>)))
                else if tn = ''bash'' then Inr (Some (oc_bashRules currentTodos cmd))
                else Inr None))
      | _ \<Rightarrow> Inl TypeError)"

text \<open>
  The block of \<open>detectStepFromLine\<close> guarded by
  \<open>parsed.type === "tool_call" && parsed.part?.name\<close>:
  \<^verbatim>\<open>
  const toolName = parsed.part.name.toLowerCase();
  const input = parsed.part.input || {};
  \<close>
  and then the rules. The first component of a result is what the block returns
  (\<open>None\<close>: no rule returned and control leaves the block), the second the value
  of \<open>this.currentTodos\<close> afterwards.
\<close>

definition toolCallBlock ::
  "'n numops \<Rightarrow> 'n TodoItem list \<Rightarrow> 'n json \<Rightarrow> 'n json
     \<Rightarrow> exn + ('n StepInfo option \<times> 'n TodoItem list)" where
  "toolCallBlock N currentTodos part nm =
     bindE (call_toLowerCase nm) (\<lambda>tn.
       let input = Some (js_or_lit N (getq (Some part) ''input'') (JObj []))
       in bindE (todoWrite N tn input) (\<lambda>w.
            case w of
              Some new \<Rightarrow>
                Inr (Some \<lparr>step = ''Planning'', toolOutput = None, diff = None,
                           todos = Some new\<rparr>, new)
            | None \<Rightarrow> bindE (toolRules N currentTodos tn input) (\<lambda>r. Inr (r, currentTodos))))"

text \<open>
  The guard \<open>parsed.type === "tool_call" && parsed.part?.name\<close>, with
  \<open>parsed.part\<close> and \<open>parsed.part.name\<close> when it holds.
\<close>

definition toolCallOf :: "'n numops \<Rightarrow> 'n json \<Rightarrow> ('n json \<times> 'n json) option" where
  "toolCallOf N p =
     (let part = readProp p ''part''; nm = getq part ''name''
      in if readProp p ''type'' = Some (JStr ''tool_call'') \<and> truthy N nm
         then (case part of
                 Some pt \<Rightarrow> (case nm of Some n \<Rightarrow> Some (pt, n) | None \<Rightarrow> None)
               | None \<Rightarrow> None)
         else None)"

text \<open>
  The end of the \<open>try\<close> body:
  \<^verbatim>\<open>
  if (parsed.type === "step_start") {
    return { step: "Thinking",
             todos: this.currentTodos.length > 0 ? this.currentTodos : undefined };
  }
  return null;
  \<close>
\<close>

definition thinkingRule :: "'n json \<Rightarrow> 'n TodoItem list \<Rightarrow> 'n StepInfo option" where
  "thinkingRule p currentTodos =
     (if readProp p ''type'' = Some (JStr ''step_start'')
      then Some \<lparr>step = ''Thinking'', toolOutput = None, diff = None,
                 todos = carryTodos currentTodos\<rparr>
      else None)"

text \<open>
  \<open>detectStepFromLine(line)\<close>, with \<open>this.currentTodos\<close> passed in and returned.
  The body of the \<open>try\<close> assigns \<open>this.currentTodos\<close> only as its last action before
  \<open>return\<close>, so a body that throws leaves the field as it was. \<open>parsed.type\<close>
  throws when \<open>parsed\<close> is \<open>null\<close>.
\<close>

definition detectParsed ::
  "'n numops \<Rightarrow> 'n TodoItem list \<Rightarrow> 'n json
     \<Rightarrow> exn + ('n StepInfo option \<times> 'n TodoItem list)" where
  "detectParsed N currentTodos p =
     (if p = JNull then Inl TypeError
      else
        (case toolCallOf N p of
           Some (part, nm) \<Rightarrow>
             bindE (toolCallBlock N currentTodos part nm) (\<lambda>rt.
               case fst rt of
                 Some info \<Rightarrow> Inr rt
               | None \<Rightarrow> Inr (thinkingRule p (snd rt), snd rt))
         | None \<Rightarrow> Inr (thinkingRule p currentTodos, currentTodos)))"

definition detectLineBody ::
  "'n numops \<Rightarrow> (string \<Rightarrow> exn + 'n json) \<Rightarrow> 'n TodoItem list \<Rightarrow> string
     \<Rightarrow> exn + ('n StepInfo option \<times> 'n TodoItem list)" where
  "detectLineBody N parse currentTodos trimmed =
     bindE (parse trimmed) (detectParsed N currentTodos)"

definition detectStepFromLine ::
  "'n numops \<Rightarrow> (string \<Rightarrow> exn + 'n json) \<Rightarrow> 'n TodoItem list \<Rightarrow> string
     \<Rightarrow> exn + ('n StepInfo option \<times> 'n TodoItem list)" where
  "detectStepFromLine N parse currentTodos line =
     (let trimmed = trim line
      in if \<not> startsWith trimmed ''{'' then Inr (None, currentTodos)
         else try_catch (detectLineBody N parse currentTodos trimmed) (Inr (None, currentTodos)))"

section \<open>Aggregating the result of an execution\<close>

text \<open>
  One iteration of the loop of \<open>checkForErrors\<close>:
  \<^verbatim>\<open>
  const parsed = JSON.parse(line);
  if (parsed.type === "error") {
    return parsed.error?.message || parsed.message || "Unknown error";
  }
  \<close>
  Here a line is not filtered by its first character, so \<open>parsed\<close> can be any
  JSON value, and \<open>parsed.type\<close> throws on \<open>null\<close>.
\<close>

definition errorOfLine ::
  "'n numops \<Rightarrow> (string \<Rightarrow> exn + 'n json) \<Rightarrow> string \<Rightarrow> exn + 'n json option" where
  "errorOfLine N parse line =
     bindE (parse line) (\<lambda>p.
       let parsed = Some p
       in bindE (get parsed ''type'') (\<lambda>ty.
            if ty = Some (JStr ''error'')
            then Inr (Some (js_or_lit N
                              (js_or N (getq (getq parsed ''error'') ''message'')
                                 (getq parsed ''message''))
                              (JStr ''Unknown error'')))
            else Inr None))"

text \<open>The loop: an iteration that throws is skipped by its \<open>catch\<close>.\<close>

fun firstError ::
  "'n numops \<Rightarrow> (string \<Rightarrow> exn + 'n json) \<Rightarrow> string list \<Rightarrow> 'n json option" where
  "firstError N parse [] = None"
| "firstError N parse (l # ls) =
     (case errorOfLine N parse l of
        Inr (Some e) \<Rightarrow> Some e
      | _ \<Rightarrow> firstError N parse ls)"

text \<open>\<open>checkForErrors(output)\<close>: \<open>None\<close> is \<open>null\<close>.\<close>

definition checkForErrors ::
  "'n numops \<Rightarrow> (string \<Rightarrow> exn + 'n json) \<Rightarrow> string \<Rightarrow> 'n json option" where
  "checkForErrors N parse output = firstError N parse (filterBoolean (split_nl output))"

text \<open>
  \<open>OpenCodeEngine.parseOutput\<close>, first loop. The state is
  \<open>(inputTokens, outputTokens, cost)\<close>:
  \<^verbatim>\<open>
  const parsed = JSON.parse(line);
  if (parsed.type === "step_finish") {
    inputTokens = parsed.part?.tokens?.input || 0;
    outputTokens = parsed.part?.tokens?.output || 0;
    if (parsed.part?.cost) { cost = String(parsed.part.cost); }
  }
  \<close>
  When \<open>String\<close> throws, the two token counts are assigned already and the cost
  is not.
\<close>

type_synonym 'n usage = "'n json \<times> 'n json \<times> string option"

definition usageOfLine ::
  "'n numops \<Rightarrow> (string \<Rightarrow> exn + 'n json) \<Rightarrow> 'n usage \<Rightarrow> string \<Rightarrow> 'n usage" where
  "usageOfLine N parse st line =
     (case parse line of
        Inl e \<Rightarrow> st
      | Inr p \<Rightarrow>
          (let parsed = Some p
           in case get parsed ''type'' of
                Inl e \<Rightarrow> st
              | Inr ty \<Rightarrow>
                  if ty = Some (JStr ''step_finish'') then
                    (let part = getq parsed ''part'';
                         inT = js_or_lit N (getq (getq part ''tokens'') ''input'') (JNum (num_zero N));
                         outT = js_or_lit N (getq (getq part ''tokens'') ''output'') (JNum (num_zero N));
                         c = getq part ''cost''
                     in if truthy N c
                        then (case c of
                                Some cj \<Rightarrow>
                                  (case js_String N cj of
                                     Inl e \<Rightarrow> (inT, outT, snd (snd st))
                                   | Inr cs \<Rightarrow> (inT, outT, Some cs))
                              | None \<Rightarrow> (inT, outT, snd (snd st)))
                        else (inT, outT, snd (snd st)))
                  else st))"

text \<open>
  Second loop: the text parts.
  \<^verbatim>\<open>
  const parsed = JSON.parse(line);
  if (parsed.type === "text" && parsed.part?.text) { textParts.push(parsed.part.text); }
  \<close>
\<close>

definition textOfLine ::
  "'n numops \<Rightarrow> (string \<Rightarrow> exn + 'n json) \<Rightarrow> string \<Rightarrow> 'n json list" where
  "textOfLine N parse line =
     (case parse line of
        Inl e \<Rightarrow> []
      | Inr p \<Rightarrow>
          (let parsed = Some p
           in case get parsed ''type'' of
                Inl e \<Rightarrow> []
              | Inr ty \<Rightarrow>
                  (let t = getq (getq parsed ''part'') ''text''
                   in if ty = Some (JStr ''text'') \<and> truthy N t
                      then (case t of Some tj \<Rightarrow> [tj] | None \<Rightarrow> [])
                      else [])))"

text \<open>
  \<open>parseOutput(output)\<close>. \<open>textParts.join("")\<close> stands outside every \<open>try\<close>: when
  it throws, \<open>parseOutput\<close> throws.
\<close>

record 'n ParsedOutput =
  po_response :: string
  po_inputTokens :: "'n json"
  po_outputTokens :: "'n json"
  po_cost :: "string option"

definition parseOutput ::
  "'n numops \<Rightarrow> (string \<Rightarrow> exn + 'n json) \<Rightarrow> string \<Rightarrow> exn + 'n ParsedOutput" where
  "parseOutput N parse output =
     (let lines = filterBoolean (split_nl output);
          u = foldl (usageOfLine N parse) (JNum (num_zero N), JNum (num_zero N), None) lines;
          textParts = concat (map (textOfLine N parse) lines)
      in bindE (js_join N [] textParts) (\<lambda>joined.
           Inr \<lparr>po_response = (if joined \<noteq> [] then joined else ''Task completed''),
                po_inputTokens = fst u, po_outputTokens = fst (snd u),
                po_cost = snd (snd u)\<rparr>))"

text \<open>
  \<open>AIResult\<close>. \<open>error\<close> is a value: \<open>checkForErrors\<close> hands on whatever the error
  event carried.
\<close>

record 'n AIResult =
  success :: bool
  response :: string
  inputTokens :: "'n json"
  outputTokens :: "'n json"
  cost :: "string option"
  error :: "'n json option"

text \<open>
  The end of \<open>OpenCodeEngine.execute\<close>, once the output is there (the same text
  ends \<open>executeStreaming\<close>); \<open>Inl\<close> is a rejected promise.
  \<^verbatim>\<open>
  const error = checkForErrors(output);
  if (error) { return { success: false, response: "", inputTokens: 0, outputTokens: 0, error }; }
  const { response, inputTokens, outputTokens, cost } = this.parseOutput(output);
  if (exitCode !== 0) {
    return { success: false, response, inputTokens, outputTokens,
             error: formatCommandError(exitCode, output) };
  }
  return { success: true, response, inputTokens, outputTokens, cost };
  \<close>
\<close>

definition aggregate ::
  "'n numops \<Rightarrow> (string \<Rightarrow> exn + 'n json) \<Rightarrow> int \<Rightarrow> string \<Rightarrow> exn + 'n AIResult" where
  "aggregate N parse exitCode output =
     (let err = checkForErrors N parse output
      in if truthy N err then
           Inr \<lparr>success = False, response = [], inputTokens = JNum (num_zero N),
                outputTokens = JNum (num_zero N), cost = None, error = err\<rparr>
         else
           bindE (parseOutput N parse output) (\<lambda>po.
             if exitCode \<noteq> 0 then
               Inr \<lparr>success = False, response = po_response po,
                    inputTokens = po_inputTokens po, outputTokens = po_outputTokens po,
                    cost = None,
                    error = Some (JStr (formatCommandError exitCode output))\<rparr>
             else
               Inr \<lparr>success = True, response = po_response po,
                    inputTokens = po_inputTokens po, outputTokens = po_outputTokens po,
                    cost = po_cost po, error = None\<rparr>))"

text \<open>
  \<open>OpenCodeEngine.execute\<close>, after \<open>execCommand\<close> has returned \<open>stdout\<close>, \<open>stderr\<close>
  and \<open>exitCode\<close>: \<open>const output = stdout + stderr;\<close> and then the text above.
\<close>

definition execute ::
  "'n numops \<Rightarrow> (string \<Rightarrow> exn + 'n json) \<Rightarrow> string \<Rightarrow> string \<Rightarrow> int \<Rightarrow> exn + 'n AIResult" where
  "execute N parse stdout stderr exitCode = aggregate N parse exitCode (stdout @ stderr)"

section \<open>Concrete instances for the examples\<close>

text \<open>
  Numbers as naturals, for the examples: zero is falsy, \<open>String\<close> prints decimals.
\<close>

definition natNumbers :: "nat numops" where
  "natNumbers = \<lparr>num_truthy = (\<lambda>n. n \<noteq> 0), num_String = showNat, num_zero = 0\<rparr>"

text \<open>
  A stand-in for \<open>JSON.parse\<close> that knows the texts of a table and throws
  \<open>SyntaxError\<close> on every other text. The examples list each JSON text with its
  value and feed no other JSON text.
\<close>

definition parseTable :: "(string \<times> 'n json) list \<Rightarrow> string \<Rightarrow> exn + 'n json" where
  "parseTable tbl s = (case map_of tbl s of Some v \<Rightarrow> Inr v | None \<Rightarrow> Inl SyntaxError)"

section \<open>Basic facts\<close>

lemma bindE_Inr: "bindE m f = Inr y \<longleftrightarrow> (\<exists>x. m = Inr x \<and> f x = Inr y)"
  by (cases m) (simp_all add: bindE_def)

lemma bindE_simps [simp]: "bindE (Inr x) f = f x" "bindE (Inl e) f = Inl e"
  by (simp_all add: bindE_def)

lemma try_catch_simps [simp]: "try_catch (Inr x) h = Inr x" "try_catch (Inl e) h = h"
  by (simp_all add: try_catch_def)

text \<open>
  Rules that carry a property of a result through the control structure of a
  definition, one constructor at a time.
\<close>

lemma res_if: "(a = r \<longrightarrow> Q) \<Longrightarrow> (b = r \<longrightarrow> Q) \<Longrightarrow> (if c then a else b) = r \<longrightarrow> Q"
  by simp

lemma res_bind:
  "(\<And>x. m = Inr x \<Longrightarrow> f x = Inr y \<longrightarrow> Q) \<Longrightarrow> bindE m f = Inr y \<longrightarrow> Q"
  by (cases m) simp_all

lemma res_opt:
  "(v = None \<Longrightarrow> a = r \<longrightarrow> Q) \<Longrightarrow> (\<And>x. v = Some x \<Longrightarrow> f x = r \<longrightarrow> Q)
   \<Longrightarrow> (case v of None \<Rightarrow> a | Some x \<Rightarrow> f x) = r \<longrightarrow> Q"
  by (cases v) simp_all

lemma res_json:
  "(c1 = r \<longrightarrow> Q) \<Longrightarrow> (\<And>x. c2 x = r \<longrightarrow> Q) \<Longrightarrow> (\<And>x. c3 x = r \<longrightarrow> Q)
   \<Longrightarrow> (\<And>x. c4 x = r \<longrightarrow> Q) \<Longrightarrow> (\<And>x. c5 x = r \<longrightarrow> Q) \<Longrightarrow> (\<And>x. c6 x = r \<longrightarrow> Q)
   \<Longrightarrow> case_json c1 c2 c3 c4 c5 c6 v = r \<longrightarrow> Q"
  by (cases v) simp_all

lemma res_prod:
  "(\<And>a b. f a b = r \<longrightarrow> Q) \<Longrightarrow> (case v of (a, b) \<Rightarrow> f a b) = r \<longrightarrow> Q"
  by (cases v) simp_all

section \<open>Every returned step is canonical\<close>

lemma writeRules_step: "writeRules tf = Some i \<longrightarrow> step i \<in> set canonicalSteps"
  unfolding writeRules_def Let_def
  by (intro res_if) (auto simp: canonicalSteps_def)

lemma bashRules_step: "bashRules N raw tf = Inr (Some i) \<longrightarrow> step i \<in> set canonicalSteps"
  unfolding bashRules_def Let_def
  by (intro res_if res_bind) (auto simp: canonicalSteps_def)

lemma classifyFields_step:
  "classifyFields N raw tf = Inr (Some i) \<longrightarrow> step i \<in> set canonicalSteps"
  unfolding classifyFields_def Let_def
  apply (intro res_if res_bind)
  using writeRules_step[of tf i] bashRules_step[of N raw tf i]
  by (auto simp: canonicalSteps_def split: option.splits)

lemma detectStepBody_step:
  "detectStepBody N parse t = Inr (Some i) \<longrightarrow> step i \<in> set canonicalSteps"
  unfolding detectStepBody_def Let_def
  by (intro res_bind) (rule classifyFields_step)

lemma oc_bashRules_step: "step (oc_bashRules cur cmd) \<in> set canonicalSteps"
  by (simp add: oc_bashRules_def canonicalSteps_def)

lemma toolRules_step:
  "toolRules N cur tn input = Inr (Some i) \<longrightarrow> step i \<in> set canonicalSteps"
  unfolding toolRules_def Let_def
  apply (intro res_json res_if res_bind)
  using oc_bashRules_step[of cur]
  by (auto simp: canonicalSteps_def)

lemma toolCallBlock_step:
  "toolCallBlock N cur part nm = Inr (Some i, t) \<longrightarrow> step i \<in> set canonicalSteps"
  unfolding toolCallBlock_def Let_def
  apply (intro res_bind res_opt)
  by (auto dest: toolRules_step[THEN mp] simp: canonicalSteps_def)

lemma thinkingRule_step: "thinkingRule p cur = Some i \<longrightarrow> step i \<in> set canonicalSteps"
  by (auto simp: thinkingRule_def canonicalSteps_def)

lemma detectParsed_step:
  "detectParsed N cur p = Inr (Some i, t) \<longrightarrow> step i \<in> set canonicalSteps"
  unfolding detectParsed_def
  apply (intro res_if res_opt res_prod res_bind)
  by (auto dest: thinkingRule_step[THEN mp] toolCallBlock_step[THEN mp] split: option.splits)

lemma detectLineBody_step:
  "detectLineBody N parse cur s = Inr (Some i, t) \<longrightarrow> step i \<in> set canonicalSteps"
  unfolding detectLineBody_def
  by (intro res_bind) (rule detectParsed_step)

text \<open>
  C1. Whatever the line (not JSON at all, malformed JSON, JSON with missing or
  wrongly typed fields, the empty string) and whatever \<open>JSON.parse\<close> does with it,
  neither \<open>detectStepFromOutput\<close> nor \<open>detectStepFromLine\<close> raises: each returns,
  and what it returns is \<open>null\<close> or a step info whose step is one of the canonical
  names.
\<close>

theorem C1_classifiers_never_raise:
  "(\<exists>r. detectStepFromOutput N parse line = Inr r
        \<and> (r = None \<or> (\<exists>i. r = Some i \<and> step i \<in> set canonicalSteps)))
   \<and> (\<exists>r t. detectStepFromLine N parse cur line = Inr (r, t)
        \<and> (r = None \<or> (\<exists>i. r = Some i \<and> step i \<in> set canonicalSteps)))"
proof
  show "\<exists>r. detectStepFromOutput N parse line = Inr r
        \<and> (r = None \<or> (\<exists>i. r = Some i \<and> step i \<in> set canonicalSteps))"
  proof (cases "detectStepBody N parse (trim line)")
    case (Inl e)
    then show ?thesis by (simp add: detectStepFromOutput_def Let_def)
  next
    case (Inr r)
    then show ?thesis
      using detectStepBody_step[of N parse "trim line"]
      by (cases r) (simp_all add: detectStepFromOutput_def Let_def)
  qed
next
  show "\<exists>r t. detectStepFromLine N parse cur line = Inr (r, t)
        \<and> (r = None \<or> (\<exists>i. r = Some i \<and> step i \<in> set canonicalSteps))"
  proof (cases "detectLineBody N parse cur (trim line)")
    case (Inl e)
    then show ?thesis by (simp add: detectStepFromLine_def Let_def)
  next
    case (Inr rt)
    obtain r t where rt: "rt = (r, t)" by (cases rt)
    show ?thesis
      using Inr rt detectLineBody_step[of N parse cur "trim line"]
      by (cases r) (simp_all add: detectStepFromLine_def Let_def)
  qed
qed

text \<open>At a malformed line both return \<open>null\<close>.\<close>

theorem C1_classifiers_never_raise_witness:
  \<open>detectStepFromOutput natNumbers (parseTable []) ''{"tool": '' = Inr None
   \<and> detectStepFromLine natNumbers (parseTable []) [] ''{"tool": '' = Inr (None, [])\<close>
  using C1_classifiers_never_raise
    [of natNumbers \<open>parseTable []\<close> \<open>''{"tool": ''\<close> \<open>[]\<close>]
  by (simp add: detectStepFromOutput_def detectStepBody_def detectStepFromLine_def
      detectLineBody_def trim_def isWhiteSpace_def startsWith_def parseTable_def)

section \<open>The OpenCode classifier on a parsed line\<close>

lemma detectStepFromLine_parsed:
  assumes "startsWith (trim line) ''{''" and "parse (trim line) = Inr p"
  shows "detectStepFromLine N parse cur line = try_catch (detectParsed N cur p) (Inr (None, cur))"
  using assms by (simp add: detectStepFromLine_def detectLineBody_def)

text \<open>
  C10. A line whose JSON value has \<open>type\<close> \<open>"step_start"\<close> makes
  \<open>detectStepFromLine\<close> return a \<open>Thinking\<close> event, with the tracked todo list when
  that is not empty, and leaves the list as it is. \<open>JSON.parse\<close> is applied to the
  trimmed line; a text that parses to an object starts with a brace.
\<close>

theorem C10_step_start_thinking:
  assumes "startsWith (trim line) ''{''" and "parse (trim line) = Inr p"
    and "readProp p ''type'' = Some (JStr ''step_start'')"
  shows "detectStepFromLine N parse cur line =
           Inr (Some \<lparr>step = ''Thinking'', toolOutput = None, diff = None,
                      todos = (if cur \<noteq> [] then Some cur else None)\<rparr>, cur)"
proof -
  from assms(3) have "p \<noteq> JNull" by auto
  moreover from assms(3) have "toolCallOf N p = None"
    by (simp add: toolCallOf_def)
  ultimately have "detectParsed N cur p = Inr (thinkingRule p cur, cur)"
    by (simp add: detectParsed_def)
  with assms show ?thesis
    by (simp add: detectStepFromLine_parsed thinkingRule_def carryTodos_def)
qed

theorem C10_step_start_thinking_witness:
  \<open>detectStepFromLine natNumbers
     (parseTable [(''{"type":"step_start"}'', JObj [(''type'', JStr ''step_start'')])])
     [\<lparr>todo_id = ''1'', todo_content = ''ship'', todo_status = JStr ''pending''\<rparr>]
     ''  {"type":"step_start"} '' =
   Inr (Some \<lparr>step = ''Thinking'', toolOutput = None, diff = None,
              todos = Some [\<lparr>todo_id = ''1'', todo_content = ''ship'',
                             todo_status = JStr ''pending''\<rparr>]\<rparr>,
        [\<lparr>todo_id = ''1'', todo_content = ''ship'', todo_status = JStr ''pending''\<rparr>])\<close>
  using C10_step_start_thinking [of \<open>''  {"type":"step_start"} ''\<close>
      \<open>parseTable [(''{"type":"step_start"}'', JObj [(''type'', JStr ''step_start'')])]\<close>
      \<open>JObj [(''type'', JStr ''step_start'')]\<close> natNumbers
      \<open>[\<lparr>todo_id = ''1'', todo_content = ''ship'', todo_status = JStr ''pending''\<rparr>]\<close>]
  by (simp add: trim_def isWhiteSpace_def startsWith_def parseTable_def)

lemma detectParsed_toolCall:
  assumes "readProp p ''type'' = Some (JStr ''tool_call'')"
    and "readProp p ''part'' = Some part"
    and "readProp part ''name'' = Some (JStr nm)" and "nm \<noteq> []"
  shows "detectParsed N cur p = toolCallBlock N cur part (JStr nm)"
proof -
  from assms(1) have "p \<noteq> JNull" by auto
  moreover from assms have "toolCallOf N p = Some (part, JStr nm)"
    by (simp add: toolCallOf_def getq_def)
  moreover from assms(1) have "thinkingRule p t = None" for t :: "'a TodoItem list"
    by (simp add: thinkingRule_def)
  ultimately show ?thesis
    by (cases "toolCallBlock N cur part (JStr nm)") (auto simp: detectParsed_def split: option.splits)
qed

lemma toolCallBlock_str:
  "toolCallBlock N cur part (JStr nm) =
     bindE (todoWrite N (toLowerCase nm) (Some (js_or_lit N (readProp part ''input'') (JObj []))))
       (\<lambda>w. case w of
          Some new \<Rightarrow> Inr (Some \<lparr>step = ''Planning'', toolOutput = None, diff = None,
                                 todos = Some new\<rparr>, new)
        | None \<Rightarrow> bindE (toolRules N cur (toLowerCase nm)
                           (Some (js_or_lit N (readProp part ''input'') (JObj []))))
                    (\<lambda>r. Inr (r, cur)))"
  by (simp add: toolCallBlock_def getq_def Let_def)

lemma toLowerCase_Nil [simp]: "toLowerCase s = [] \<longleftrightarrow> s = []"
  by (simp add: toLowerCase_def)

lemma detectStepFromLine_toolCall:
  assumes "startsWith (trim line) ''{''" and "parse (trim line) = Inr p"
    and "readProp p ''type'' = Some (JStr ''tool_call'')"
    and "readProp p ''part'' = Some part"
    and "readProp part ''name'' = Some (JStr nm)" and "toLowerCase nm = tn" and "tn \<noteq> []"
    and "inp = Some (js_or_lit N (readProp part ''input'') (JObj []))"
  shows "detectStepFromLine N parse cur line =
           try_catch
             (bindE (todoWrite N tn inp)
                (\<lambda>w. case w of
                   Some new \<Rightarrow> Inr (Some \<lparr>step = ''Planning'', toolOutput = None, diff = None,
                                          todos = Some new\<rparr>, new)
                 | None \<Rightarrow> bindE (toolRules N cur tn inp) (\<lambda>r. Inr (r, cur))))
             (Inr (None, cur))"
proof -
  from assms(6,7) have "nm \<noteq> []" by auto
  with assms(1-5) show ?thesis
    unfolding assms(8) assms(6)[symmetric]
    by (simp add: detectStepFromLine_parsed detectParsed_toolCall toolCallBlock_str)
qed

text \<open>
  C9 (as the code has it). For the line
  \<open>{type:"tool_call", part:{name:"read", input:{file_path:"/a/b/Foo.ts"}}}\<close> the
  OpenCode classifier returns \<open>Reading code\<close> with the tool output
  \<open>/a/b/foo.ts\<close>: the path is lower-cased, it is shorter than 60 characters and
  so is echoed whole, and the event carries the tracked todos when there are any.
\<close>

theorem C9_read_event_lowercase_path:
  assumes "startsWith (trim line) ''{''"
    and "parse (trim line) =
           Inr (JObj [(''type'', JStr ''tool_call''),
                      (''part'', JObj [(''name'', JStr ''read''),
                                       (''input'', JObj [(''file_path'', JStr ''/a/b/Foo.ts'')])])])"
  shows "detectStepFromLine N parse cur line =
           Inr (Some \<lparr>step = ''Reading code'', toolOutput = Some ''/a/b/foo.ts'', diff = None,
                      todos = (if cur \<noteq> [] then Some cur else None)\<rparr>, cur)"
  using assms
  by (simp add: detectStepFromLine_parsed detectParsed_def toolCallOf_def getq_def
      thinkingRule_def toolCallBlock_def todoWrite_def toolRules_def js_or_lit_def js_or_def
      toLowerCase_def lowerChar_def truncatePath_def truncate_str_def carryTodos_def)


text \<open>
  C9 as stated fails: the event \<open>{step:"Reading code", toolOutput:".../Foo.ts"}\<close>
  is not what the classifier returns for that line.
\<close>

theorem C9_counterexample:
  \<open>detectStepFromLine natNumbers
     (parseTable
        [(''{"type":"tool_call","part":{"name":"read","input":{"file_path":"/a/b/Foo.ts"}}}'',
          JObj [(''type'', JStr ''tool_call''),
                (''part'', JObj [(''name'', JStr ''read''),
                                 (''input'', JObj [(''file_path'', JStr ''/a/b/Foo.ts'')])])])])
     []
     ''{"type":"tool_call","part":{"name":"read","input":{"file_path":"/a/b/Foo.ts"}}}''
   \<noteq> Inr (Some \<lparr>step = ''Reading code'', toolOutput = Some ''.../Foo.ts'', diff = None,
                 todos = None\<rparr>, [])\<close>
  by (simp add: detectStepFromLine_def detectLineBody_def trim_def isWhiteSpace_def
      startsWith_def parseTable_def detectParsed_def toolCallOf_def getq_def
      thinkingRule_def toolCallBlock_def todoWrite_def toolRules_def js_or_lit_def js_or_def
      toLowerCase_def lowerChar_def truncatePath_def truncate_str_def carryTodos_def natNumbers_def)

theorem C9_read_event_lowercase_path_witness:
  \<open>detectStepFromLine natNumbers
     (parseTable
        [(''{"type":"tool_call","part":{"name":"read","input":{"file_path":"/a/b/Foo.ts"}}}'',
          JObj [(''type'', JStr ''tool_call''),
                (''part'', JObj [(''name'', JStr ''read''),
                                 (''input'', JObj [(''file_path'', JStr ''/a/b/Foo.ts'')])])])])
     []
     ''{"type":"tool_call","part":{"name":"read","input":{"file_path":"/a/b/Foo.ts"}}}''
   = Inr (Some \<lparr>step = ''Reading code'', toolOutput = Some ''/a/b/foo.ts'', diff = None,
                 todos = None\<rparr>, [])\<close>
  using C9_read_event_lowercase_path [of
     \<open>''{"type":"tool_call","part":{"name":"read","input":{"file_path":"/a/b/Foo.ts"}}}''\<close>
     \<open>parseTable
        [(''{"type":"tool_call","part":{"name":"read","input":{"file_path":"/a/b/Foo.ts"}}}'',
          JObj [(''type'', JStr ''tool_call''),
                (''part'', JObj [(''name'', JStr ''read''),
                                 (''input'', JObj [(''file_path'', JStr ''/a/b/Foo.ts'')])])])]\<close>
     natNumbers \<open>[]\<close>]
  by (simp add: trim_def isWhiteSpace_def startsWith_def parseTable_def)

lemma toolRules_other:
  assumes "tn \<notin> {''read'', ''glob'', ''grep'', ''write'', ''edit'', ''bash''}"
  shows "toolRules N cur tn inp = Inr None \<or> (\<exists>e. toolRules N cur tn inp = Inl e)"
proof (cases "js_or_lit N (js_or N (getq inp ''file_path'') (getq inp ''path'')) (JStr [])")
  case (JStr rp)
  show ?thesis
  proof (cases "call_toLowerCase (js_or_lit N (getq inp ''command'') (JStr []))")
    case (Inl e)
    with JStr show ?thesis by (simp add: toolRules_def)
  next
    case (Inr c)
    with JStr assms show ?thesis by (simp add: toolRules_def Let_def)
  qed
qed (simp_all add: toolRules_def)

text \<open>
  C6. A todo-write tool call (\<open>todowrite\<close> or \<open>mcp_todowrite\<close>, in any
  letter case) whose \<open>todos\<close> field is absent or is not an array is ignored:
  \<open>detectStepFromLine\<close> returns \<open>null\<close> and the tracked todo list is the one
  it was called with.
\<close>

theorem C6_malformed_todos_ignored:
  assumes "startsWith (trim line) ''{''" and "parse (trim line) = Inr p"
    and "readProp p ''type'' = Some (JStr ''tool_call'')"
    and "readProp p ''part'' = Some part"
    and "readProp part ''name'' = Some (JStr nm)"
    and "toLowerCase nm = ''todowrite'' \<or> toLowerCase nm = ''mcp_todowrite''"
    and "\<forall>ts. getq (Some (js_or_lit N (readProp part ''input'') (JObj []))) ''todos''
               \<noteq> Some (JArr ts)"
  shows "detectStepFromLine N parse cur line = Inr (None, cur)"
proof -
  define tn where "tn = toLowerCase nm"
  define inp where "inp = Some (js_or_lit N (readProp part ''input'') (JObj []))"
  from assms(6) have tn: "tn = ''todowrite'' \<or> tn = ''mcp_todowrite''" and "tn \<noteq> []"
    by (auto simp: tn_def toLowerCase_def)
  from assms(7) have "todoWrite N tn inp = Inr None"
    unfolding inp_def[symmetric]
    by (cases "getq inp ''todos''") (auto simp: todoWrite_def Let_def split: json.splits)
  moreover from tn have "toolRules N cur tn inp = Inr None \<or> (\<exists>e. toolRules N cur tn inp = Inl e)"
    by (intro toolRules_other) auto
  moreover have tn_eq: "toLowerCase nm = tn" by (simp add: tn_def)
  have inp_eq: "inp = Some (js_or_lit N (readProp part ''input'') (JObj []))"
    by (simp add: inp_def)
  note detectStepFromLine_toolCall
      [where cur = cur and parse = parse and line = line, OF assms(1-5) tn_eq \<open>tn \<noteq> []\<close> inp_eq]
  ultimately show ?thesis by auto
qed


theorem C6_malformed_todos_ignored_witness:
  \<open>detectStepFromLine natNumbers
     (parseTable
        [(''{"type":"tool_call","part":{"name":"TodoWrite","input":{"todos":"later"}}}'',
          JObj [(''type'', JStr ''tool_call''),
                (''part'', JObj [(''name'', JStr ''TodoWrite''),
                                 (''input'', JObj [(''todos'', JStr ''later'')])])])])
     [\<lparr>todo_id = ''1'', todo_content = ''ship'', todo_status = JStr ''pending''\<rparr>]
     ''{"type":"tool_call","part":{"name":"TodoWrite","input":{"todos":"later"}}}''
   = Inr (None, [\<lparr>todo_id = ''1'', todo_content = ''ship'', todo_status = JStr ''pending''\<rparr>])\<close>
  using C6_malformed_todos_ignored [of
     \<open>''{"type":"tool_call","part":{"name":"TodoWrite","input":{"todos":"later"}}}''\<close>
     \<open>parseTable
        [(''{"type":"tool_call","part":{"name":"TodoWrite","input":{"todos":"later"}}}'',
          JObj [(''type'', JStr ''tool_call''),
                (''part'', JObj [(''name'', JStr ''TodoWrite''),
                                 (''input'', JObj [(''todos'', JStr ''later'')])])])]\<close>
     \<open>JObj [(''type'', JStr ''tool_call''),
            (''part'', JObj [(''name'', JStr ''TodoWrite''),
                             (''input'', JObj [(''todos'', JStr ''later'')])])]\<close>
     \<open>JObj [(''name'', JStr ''TodoWrite''), (''input'', JObj [(''todos'', JStr ''later'')])]\<close>
     \<open>''TodoWrite''\<close> natNumbers
     \<open>[\<lparr>todo_id = ''1'', todo_content = ''ship'', todo_status = JStr ''pending''\<rparr>]\<close>]
  by (simp add: trim_def isWhiteSpace_def startsWith_def parseTable_def toLowerCase_def
      lowerChar_def js_or_lit_def getq_def)

section \<open>The diff preview\<close>

lemma truncate_str_length: "3 \<le> m \<Longrightarrow> int (length (truncate_str s m)) \<le> m"
  by (auto simp: truncate_str_def slice0_def)

lemma createDiff_strings:
  "createDiff N fp (JStr old) (JStr new) (int n) =
     Inr (if old = [] \<and> new = [] then None
          else Some \<lparr>diff_filePath = fp,
                 oldLines = (if old = [] then None
                             else Some (map (\<lambda>l. truncate_str l 70) (take n (split_nl old)))),
                 newLines = (if new = [] then None
                             else Some (map (\<lambda>l. truncate_str l 70) (take n (split_nl new))))\<rparr>)"
  by (simp add: createDiff_def previewLines_def slice0_def)

text \<open>
  C7. On string contents \<open>createDiff\<close> returns \<open>undefined\<close> exactly when both are
  empty. Otherwise each side of the \<open>DiffInfo\<close> is absent when its content is
  empty and else holds the first \<open>maxLines\<close> lines of the content (4 at the only
  call), each cut by \<open>truncate\<close> to at most 70 characters; so no side has more
  than \<open>maxLines\<close> entries and no entry is longer than 70.
\<close>

theorem C7_diff_preview_bounded:
  "\<exists>d. createDiff N fp (JStr old) (JStr new) (int maxLines) = Inr d
     \<and> (d = None \<longleftrightarrow> old = [] \<and> new = [])
     \<and> (\<forall>i. d = Some i \<longrightarrow>
            diff_filePath i = fp
          \<and> oldLines i = (if old = [] then None
                          else Some (map (\<lambda>l. truncate_str l 70) (take maxLines (split_nl old))))
          \<and> newLines i = (if new = [] then None
                          else Some (map (\<lambda>l. truncate_str l 70) (take maxLines (split_nl new))))
          \<and> (\<forall>ls. oldLines i = Some ls \<or> newLines i = Some ls \<longrightarrow>
                 length ls \<le> maxLines \<and> (\<forall>l \<in> set ls. length l \<le> 70)))"
proof -
  have len: "length (truncate_str l 70) \<le> 70" for l
    using truncate_str_length[of 70 l] by simp
  show ?thesis
    unfolding createDiff_strings
    by (auto simp: len split: if_splits)
qed

theorem C7_diff_preview_bounded_witness:
  \<open>createDiff natNumbers ''src/a.ts''
     (JStr (''one'' @ [NL] @ ''two'' @ [NL] @ ''three'' @ [NL] @ ''four'' @ [NL] @ ''five''))
     (JStr ''const message = "0123456789012345678901234567890123456789012345678901234567890123456789";'')
     4 =
   Inr (Some \<lparr>diff_filePath = ''src/a.ts'',
              oldLines = Some [''one'', ''two'', ''three'', ''four''],
              newLines = Some [''const message = "01234567890123456789012345678901234567890123456789...'']\<rparr>)\<close>
  using C7_diff_preview_bounded [of natNumbers \<open>''src/a.ts''\<close>
      \<open>''one'' @ [NL] @ ''two'' @ [NL] @ ''three'' @ [NL] @ ''four'' @ [NL] @ ''five''\<close>
      \<open>''const message = "0123456789012345678901234567890123456789012345678901234567890123456789";''\<close>
      4]
  by (simp add: NL_def createDiff_def previewLines_def truncate_str_def slice0_def)


section \<open>The todo tracker\<close>

lemma mapTodo_ok:
  assumes "t \<noteq> JNull"
    and "stringable (js_or_lit N (readProp t ''id'') (JStr []))"
    and "stringable (js_or_lit N (readProp t ''content'') (JStr []))"
  shows "mapTodo N t =
           Inr \<lparr>todo_id = str_of N (js_or_lit N (readProp t ''id'') (JStr [])),
                todo_content = str_of N (js_or_lit N (readProp t ''content'') (JStr [])),
                todo_status = js_or_lit N (readProp t ''status'') (JStr ''pending'')\<rparr>"
  using assms by (simp add: mapTodo_def get_def nullish_def getq_def js_String_def)

lemma mapTodos_ok:
  assumes "\<forall>t \<in> set ts. t \<noteq> JNull
             \<and> stringable (js_or_lit N (readProp t ''id'') (JStr []))
             \<and> stringable (js_or_lit N (readProp t ''content'') (JStr []))"
  shows "mapTodos N ts =
           Inr (map (\<lambda>t. \<lparr>todo_id = str_of N (js_or_lit N (readProp t ''id'') (JStr [])),
                           todo_content = str_of N (js_or_lit N (readProp t ''content'') (JStr [])),
                           todo_status = js_or_lit N (readProp t ''status'') (JStr ''pending'')\<rparr>) ts)"
  using assms by (induction ts) (simp_all add: mapTodo_ok)

text \<open>
  C5 (as the code has it). A todo-write tool call whose \<open>todos\<close> field is an
  array with no \<open>null\<close> entry, and whose entries have an \<open>id\<close> and a
  \<open>content\<close> that \<open>String\<close> can convert, replaces the tracked list by the
  mapped list, whatever the list was before: \<open>id\<close> and \<open>content\<close> are the
  \<open>String\<close> of the field or the empty string when the field is missing or
  falsy, \<open>status\<close> is the field or \<open>"pending"\<close>. The call returns a \<open>Planning\<close>
  event that carries exactly the new list, and the same line applied to the new
  state returns the same event and the same state.
\<close>

theorem C5_todo_write_replaces:
  assumes "startsWith (trim line) ''{''" and "parse (trim line) = Inr p"
    and "readProp p ''type'' = Some (JStr ''tool_call'')"
    and "readProp p ''part'' = Some part"
    and "readProp part ''name'' = Some (JStr nm)"
    and "toLowerCase nm = ''todowrite'' \<or> toLowerCase nm = ''mcp_todowrite''"
    and "getq (Some (js_or_lit N (readProp part ''input'') (JObj []))) ''todos'' = Some (JArr ts)"
    and "\<forall>t \<in> set ts. t \<noteq> JNull
           \<and> stringable (js_or_lit N (readProp t ''id'') (JStr []))
           \<and> stringable (js_or_lit N (readProp t ''content'') (JStr []))"
    and "new = map (\<lambda>t. \<lparr>todo_id = str_of N (js_or_lit N (readProp t ''id'') (JStr [])),
                         todo_content = str_of N (js_or_lit N (readProp t ''content'') (JStr [])),
                         todo_status = js_or_lit N (readProp t ''status'') (JStr ''pending'')\<rparr>) ts"
  shows "detectStepFromLine N parse cur line =
           Inr (Some \<lparr>step = ''Planning'', toolOutput = None, diff = None, todos = Some new\<rparr>, new)
         \<and> detectStepFromLine N parse new line =
           Inr (Some \<lparr>step = ''Planning'', toolOutput = None, diff = None, todos = Some new\<rparr>, new)"
proof -
  define tn where "tn = toLowerCase nm"
  define inp where "inp = Some (js_or_lit N (readProp part ''input'') (JObj []))"
  from assms(6) have tn: "tn = ''todowrite'' \<or> tn = ''mcp_todowrite''" and ne: "tn \<noteq> []"
    by (auto simp: tn_def toLowerCase_def)
  have tn_eq: "toLowerCase nm = tn" by (simp add: tn_def)
  have inp_eq: "inp = Some (js_or_lit N (readProp part ''input'') (JObj []))"
    by (simp add: inp_def)
  from assms(7) have tds: "getq inp ''todos'' = Some (JArr ts)" by (simp add: inp_def)
  have "mapTodos N ts = Inr new"
    unfolding assms(9) using assms(8) by (rule mapTodos_ok)
  with tn tds have w: "todoWrite N tn inp = Inr (Some new)"
    by (auto simp: todoWrite_def)
  have "detectStepFromLine N parse c line =
          Inr (Some \<lparr>step = ''Planning'', toolOutput = None, diff = None, todos = Some new\<rparr>, new)"
    for c
    using detectStepFromLine_toolCall
      [where cur = c and parse = parse and line = line, OF assms(1-5) tn_eq ne inp_eq] w
    by simp
  then show ?thesis by simp
qed

text \<open>
  C5 as stated fails when the array holds a \<open>null\<close> entry: reading \<open>t.id\<close>
  throws inside \<open>map\<close>, the \<open>catch\<close> returns \<open>null\<close>, no \<open>Planning\<close> event is
  emitted and the tracked list is not replaced.
\<close>

theorem C5_counterexample:
  \<open>detectStepFromLine natNumbers
     (parseTable
        [(''{"type":"tool_call","part":{"name":"todowrite","input":{"todos":[null]}}}'',
          JObj [(''type'', JStr ''tool_call''),
                (''part'', JObj [(''name'', JStr ''todowrite''),
                                 (''input'', JObj [(''todos'', JArr [JNull])])])])])
     [\<lparr>todo_id = ''1'', todo_content = ''ship'', todo_status = JStr ''pending''\<rparr>]
     ''{"type":"tool_call","part":{"name":"todowrite","input":{"todos":[null]}}}''
   = Inr (None, [\<lparr>todo_id = ''1'', todo_content = ''ship'', todo_status = JStr ''pending''\<rparr>])\<close>
  by (simp add: detectStepFromLine_def detectLineBody_def trim_def isWhiteSpace_def
      startsWith_def parseTable_def detectParsed_def toolCallOf_def getq_def
      thinkingRule_def toolCallBlock_def todoWrite_def js_or_lit_def
      toLowerCase_def lowerChar_def mapTodo_def get_def nullish_def)

theorem C5_todo_write_replaces_witness:
  \<open>detectStepFromLine natNumbers
     (parseTable
        [(''{"type":"tool_call","part":{"name":"todowrite","input":{"todos":[{"id":"1","content":"write tests","status":"in_progress"},{"content":"ship"}]}}}'',
          JObj [(''type'', JStr ''tool_call''),
                (''part'', JObj [(''name'', JStr ''todowrite''),
                   (''input'', JObj [(''todos'', JArr
                      [JObj [(''id'', JStr ''1''), (''content'', JStr ''write tests''),
                             (''status'', JStr ''in_progress'')],
                       JObj [(''content'', JStr ''ship'')]])])])])])
     [\<lparr>todo_id = ''0'', todo_content = ''plan'', todo_status = JStr ''completed''\<rparr>]
     ''{"type":"tool_call","part":{"name":"todowrite","input":{"todos":[{"id":"1","content":"write tests","status":"in_progress"},{"content":"ship"}]}}}''
   = Inr (Some \<lparr>step = ''Planning'', toolOutput = None, diff = None,
                 todos = Some [\<lparr>todo_id = ''1'', todo_content = ''write tests'',
                                 todo_status = JStr ''in_progress''\<rparr>,
                               \<lparr>todo_id = [], todo_content = ''ship'',
                                 todo_status = JStr ''pending''\<rparr>]\<rparr>,
          [\<lparr>todo_id = ''1'', todo_content = ''write tests'', todo_status = JStr ''in_progress''\<rparr>,
           \<lparr>todo_id = [], todo_content = ''ship'', todo_status = JStr ''pending''\<rparr>])\<close>
  using C5_todo_write_replaces [of
     \<open>''{"type":"tool_call","part":{"name":"todowrite","input":{"todos":[{"id":"1","content":"write tests","status":"in_progress"},{"content":"ship"}]}}}''\<close>
     \<open>parseTable
        [(''{"type":"tool_call","part":{"name":"todowrite","input":{"todos":[{"id":"1","content":"write tests","status":"in_progress"},{"content":"ship"}]}}}'',
          JObj [(''type'', JStr ''tool_call''),
                (''part'', JObj [(''name'', JStr ''todowrite''),
                   (''input'', JObj [(''todos'', JArr
                      [JObj [(''id'', JStr ''1''), (''content'', JStr ''write tests''),
                             (''status'', JStr ''in_progress'')],
                       JObj [(''content'', JStr ''ship'')]])])])])]\<close>
     \<open>JObj [(''type'', JStr ''tool_call''),
                (''part'', JObj [(''name'', JStr ''todowrite''),
                   (''input'', JObj [(''todos'', JArr
                      [JObj [(''id'', JStr ''1''), (''content'', JStr ''write tests''),
                             (''status'', JStr ''in_progress'')],
                       JObj [(''content'', JStr ''ship'')]])])])]\<close>
     \<open>JObj [(''name'', JStr ''todowrite''),
                   (''input'', JObj [(''todos'', JArr
                      [JObj [(''id'', JStr ''1''), (''content'', JStr ''write tests''),
                             (''status'', JStr ''in_progress'')],
                       JObj [(''content'', JStr ''ship'')]])])]\<close>
     \<open>''todowrite''\<close> natNumbers
     \<open>[JObj [(''id'', JStr ''1''), (''content'', JStr ''write tests''),
                             (''status'', JStr ''in_progress'')],
                       JObj [(''content'', JStr ''ship'')]]\<close>
     \<open>[\<lparr>todo_id = ''1'', todo_content = ''write tests'', todo_status = JStr ''in_progress''\<rparr>,
           \<lparr>todo_id = [], todo_content = ''ship'', todo_status = JStr ''pending''\<rparr>]\<close>
     \<open>[\<lparr>todo_id = ''0'', todo_content = ''plan'', todo_status = JStr ''completed''\<rparr>]\<close>]
  by (simp add: trim_def isWhiteSpace_def startsWith_def parseTable_def toLowerCase_def
      lowerChar_def js_or_lit_def getq_def)


section \<open>The result of an execution\<close>

lemma startsWith_iff: "startsWith s sub \<longleftrightarrow> (\<exists>q. s = sub @ q)"
  unfolding startsWith_def
  by (metis append_eq_conv_conj append_take_drop_id)

lemma includes_str_iff: "includes_str s sub \<longleftrightarrow> (\<exists>p q. s = p @ sub @ q)"
proof (induction s)
  case Nil
  then show ?case by auto
next
  case (Cons c cs)
  show ?case
  proof
    assume "includes_str (c # cs) sub"
    then consider "startsWith (c # cs) sub" | "includes_str cs sub" by auto
    then show "\<exists>p q. c # cs = p @ sub @ q"
    proof cases
      case 1
      then obtain q where "c # cs = sub @ q" by (auto simp: startsWith_iff)
      then have "c # cs = [] @ sub @ q" by simp
      then show ?thesis by blast
    next
      case 2
      with Cons.IH obtain p q where "cs = p @ sub @ q" by auto
      then have "c # cs = (c # p) @ sub @ q" by simp
      then show ?thesis by blast
    qed
  next
    assume "\<exists>p q. c # cs = p @ sub @ q"
    then obtain p q where pq: "c # cs = p @ sub @ q" by auto
    show "includes_str (c # cs) sub"
    proof (cases p)
      case Nil
      with pq have "startsWith (c # cs) sub" unfolding startsWith_iff by auto
      then show ?thesis by simp
    next
      case (Cons a p')
      with pq have "cs = p' @ sub @ q" by simp
      with Cons.IH show ?thesis by auto
    qed
  qed
qed

lemma join_last: "xs \<noteq> [] \<Longrightarrow> \<exists>p. join sep xs = p @ last xs"
proof (induction sep xs rule: join.induct)
  case (3 sep x y ys)
  then obtain p where "join sep (y # ys) = p @ last (y # ys)" by auto
  then have "join sep (x # y # ys) = (x @ sep @ p) @ last (x # y # ys)" by simp
  then show ?case by blast
qed auto

lemma sliceLast_last: "xs \<noteq> [] \<Longrightarrow> sliceLast xs 12 \<noteq> [] \<and> last (sliceLast xs 12) = last xs"
proof -
  assume "xs \<noteq> []"
  then have "length xs - 12 < length xs" by (cases xs) auto
  then show ?thesis by (simp add: sliceLast_def)
qed

lemma formatCommandError_eq:
  "formatCommandError exitCode output =
     ''Command failed with exit code '' @ showInt exitCode
     @ (if trim output = [] then []
        else ''. Output:'' @ [NL]
             @ join [NL] (sliceLast (filterBoolean (split_nl (trim output))) 12))"
  by (simp add: formatCommandError_def Let_def)

lemma formatCommandError_last:
  assumes "trim output \<noteq> []" and "filterBoolean (split_nl (trim output)) \<noteq> []"
  shows "includes_str (formatCommandError exitCode output)
           (last (filterBoolean (split_nl (trim output))))"
proof -
  let ?ls = "filterBoolean (split_nl (trim output))"
  from assms(2) sliceLast_last[of ?ls] join_last[of "sliceLast ?ls 12" "[NL]"]
  obtain p where "join [NL] (sliceLast ?ls 12) = p @ last ?ls" by auto
  with assms(1) have "formatCommandError exitCode output =
      (''Command failed with exit code '' @ showInt exitCode @ ''. Output:'' @ [NL] @ p)
      @ last ?ls @ []"
    by (simp add: formatCommandError_eq)
  then show ?thesis unfolding includes_str_iff by blast
qed

text \<open>A non-empty trimmed text starts with a character that is not white space,
  so its first line is not empty.\<close>

lemma trim_hd: "trim s \<noteq> [] \<Longrightarrow> \<not> isWhiteSpace (hd (trim s))"
proof -
  assume ne: "trim s \<noteq> []"
  let ?u = "dropWhile isWhiteSpace s"
  have "trim s = rev (dropWhile isWhiteSpace (rev ?u))" by (simp add: trim_def)
  moreover have "\<exists>k. rev (dropWhile isWhiteSpace (rev ?u)) = take k ?u"
    by (metis append_take_drop_id dropWhile_eq_drop rev_append rev_rev_ident rev_take
        append_eq_conv_conj length_rev rev_drop)
  ultimately obtain k where k: "trim s = take k ?u" by auto
  with ne have "?u \<noteq> []" "k \<noteq> 0" by auto
  then have "hd (trim s) = hd ?u" using k by (cases ?u; cases k) auto
  moreover have "\<not> isWhiteSpace (hd ?u)" using \<open>?u \<noteq> []\<close> hd_dropWhile by blast
  ultimately show ?thesis by simp
qed

lemma split_nl_first: "t \<noteq> [] \<Longrightarrow> hd t \<noteq> NL \<Longrightarrow> hd (split_nl t) \<noteq> [] \<and> split_nl t \<noteq> []"
  by (cases t) (auto split: list.splits)

lemma trimmed_lines_nonempty:
  assumes "trim output \<noteq> []"
  shows "filterBoolean (split_nl (trim output)) \<noteq> []"
proof -
  from trim_hd[OF assms] have "hd (trim output) \<noteq> NL"
    by (auto simp: isWhiteSpace_def NL_def)
  with assms split_nl_first[of "trim output"]
  have "hd (split_nl (trim output)) \<noteq> []" "split_nl (trim output) \<noteq> []" by auto
  then have "hd (split_nl (trim output)) \<in> set (filterBoolean (split_nl (trim output)))"
    by (simp add: filterBoolean_def)
  then show ?thesis by auto
qed


lemma errorOfLine_none:
  assumes "\<forall>p. parse l = Inr p \<longrightarrow> readProp p ''type'' \<noteq> Some (JStr ''error'')"
  shows "errorOfLine N parse l = Inr None \<or> (\<exists>e. errorOfLine N parse l = Inl e)"
proof (cases "parse l")
  case (Inl e)
  then show ?thesis by (simp add: errorOfLine_def)
next
  case (Inr p)
  with assms have "readProp p ''type'' \<noteq> Some (JStr ''error'')" by simp
  with Inr show ?thesis
    by (cases "p = JNull") (simp_all add: errorOfLine_def get_def nullish_def getq_def)
qed

lemma firstError_none:
  assumes "\<forall>l \<in> set ls. \<forall>p. parse l = Inr p \<longrightarrow> readProp p ''type'' \<noteq> Some (JStr ''error'')"
  shows "firstError N parse ls = None"
  using assms
proof (induction ls)
  case Nil
  then show ?case by simp
next
  case (Cons l ls)
  then have "errorOfLine N parse l = Inr None \<or> (\<exists>e. errorOfLine N parse l = Inl e)"
    by (intro errorOfLine_none) simp
  with Cons show ?case by auto
qed

lemma parseOutput_ok:
  assumes "\<forall>l \<in> set (filterBoolean (split_nl output)). \<forall>v \<in> set (textOfLine N parse l). stringable v"
  shows "\<exists>po. parseOutput N parse output = Inr po"
  using assms by (simp add: parseOutput_def Let_def js_join_def)

lemma sliceLast_bound:
  "length (sliceLast xs 12) \<le> 12 \<and> (\<exists>pre. xs = pre @ sliceLast xs 12)
   \<and> (12 \<le> length xs \<longrightarrow> length (sliceLast xs 12) = 12)"
proof -
  have "xs = take (length xs - 12) xs @ sliceLast xs 12" by (simp add: sliceLast_def)
  then have "\<exists>pre. xs = pre @ sliceLast xs 12" by blast
  moreover have "length (sliceLast xs 12) \<le> 12"
    "12 \<le> length xs \<longrightarrow> length (sliceLast xs 12) = 12"
    by (simp_all add: sliceLast_def)
  ultimately show ?thesis by blast
qed

text \<open>
  When every text part converts, a nonzero exit without an error event gives the
  failure result that the comment in \<open>execute\<close> promises: \<open>success\<close> is false and the
  error is \<open>formatCommandError\<close>, which names the exit code and, when the output is
  not blank, appends the last non-empty lines of the trimmed output, 12 at most.
\<close>

lemma execute_nonzero_exit:
  assumes "exitCode \<noteq> 0"
    and "\<forall>l \<in> set (filterBoolean (split_nl (stdout @ stderr))).
           \<forall>p. parse l = Inr p \<longrightarrow> readProp p ''type'' \<noteq> Some (JStr ''error'')"
    and "\<forall>l \<in> set (filterBoolean (split_nl (stdout @ stderr))).
           \<forall>v \<in> set (textOfLine N parse l). stringable v"
    and "lines = filterBoolean (split_nl (trim (stdout @ stderr)))"
  shows "\<exists>r. execute N parse stdout stderr exitCode = Inr r
           \<and> \<not> success r
           \<and> error r = Some (JStr (formatCommandError exitCode (stdout @ stderr)))
           \<and> formatCommandError exitCode (stdout @ stderr) =
               ''Command failed with exit code '' @ showInt exitCode
               @ (if trim (stdout @ stderr) = [] then []
                  else ''. Output:'' @ [NL] @ join [NL] (sliceLast lines 12))
           \<and> length (sliceLast lines 12) \<le> 12
           \<and> (\<exists>pre. lines = pre @ sliceLast lines 12)
           \<and> (trim (stdout @ stderr) \<noteq> [] \<longrightarrow>
                 lines \<noteq> []
               \<and> includes_str (formatCommandError exitCode (stdout @ stderr)) (last lines))"
proof -
  let ?out = "stdout @ stderr"
  from assms(2) have "checkForErrors N parse ?out = None"
    unfolding checkForErrors_def by (rule firstError_none)
  moreover from assms(3) obtain po where "parseOutput N parse ?out = Inr po"
    using parseOutput_ok by blast
  ultimately have "execute N parse stdout stderr exitCode =
      Inr \<lparr>success = False, response = po_response po,
           inputTokens = po_inputTokens po, outputTokens = po_outputTokens po,
           cost = None, error = Some (JStr (formatCommandError exitCode ?out))\<rparr>"
    using assms(1) by (simp add: execute_def aggregate_def)
  moreover have "trim ?out \<noteq> [] \<Longrightarrow>
      lines \<noteq> [] \<and> includes_str (formatCommandError exitCode ?out) (last lines)"
    unfolding assms(4) using trimmed_lines_nonempty formatCommandError_last by blast
  moreover note sliceLast_bound[of lines]
  ultimately show ?thesis
    unfolding assms(4) by (simp add: formatCommandError_eq)
qed

lemma execute_nonzero_exit_example:
  \<open>execute natNumbers (parseTable [])
     (''Compiling src/main.ts'' @ [NL]) (''error TS2304'' @ [NL] @ [NL] @ ''build failed'' @ [NL]) 1
   = Inr \<lparr>success = False, response = ''Task completed'', inputTokens = JNum 0,
          outputTokens = JNum 0, cost = None,
          error = Some (JStr (''Command failed with exit code 1. Output:'' @ [NL]
                              @ ''Compiling src/main.ts'' @ [NL] @ ''error TS2304'' @ [NL]
                              @ ''build failed''))\<rparr>\<close>
  by code_simp

text \<open>Of 14 non-empty lines the first two are dropped.\<close>

lemma formatCommandError_example:
  \<open>formatCommandError 2
     (join [NL] [''a'', ''b'', ''c'', ''d'', ''e'', ''f'', ''g'', [], ''h'', ''i'', ''j'', ''k'',
                 ''l'', ''m'', ''n''] @ [NL])
   = ''Command failed with exit code 2. Output:'' @ [NL]
     @ join [NL] [''c'', ''d'', ''e'', ''f'', ''g'', ''h'', ''i'', ''j'', ''k'', ''l'', ''m'', ''n'']\<close>
  by code_simp

lemma parseOutput_throws:
  assumes "l \<in> set (filterBoolean (split_nl output))" and "v \<in> set (textOfLine N parse l)"
    and "\<not> stringable v"
  shows "parseOutput N parse output = Inl TypeError"
proof -
  from assms have "\<not> (\<forall>x \<in> set (concat (map (textOfLine N parse)
                          (filterBoolean (split_nl output)))). stringable x)"
    by auto
  then show ?thesis
    by (simp only: parseOutput_def Let_def js_join_def if_False bindE_simps)
qed

text \<open>
  C8. The claim is that an execution with a nonzero exit code and no error event
  always yields a result with \<open>success\<close> false and an error built from the last
  non-empty output lines. The code does so when every text part converts (lemma
  \<open>execute_nonzero_exit\<close>), and the comment in \<open>execute\<close> promises it, but it misses
  a case: \<open>parseOutput\<close> joins the text parts outside every \<open>try\<close>, so when a
  text event carries a value that \<open>String\<close> cannot convert, \<open>execute\<close> rejects
  with \<open>TypeError\<close> and yields no result, whatever the exit code.
\<close>

theorem C8_execute_rejects_unconvertible_text:
  assumes "\<forall>l \<in> set (filterBoolean (split_nl (stdout @ stderr))).
             \<forall>p. parse l = Inr p \<longrightarrow> readProp p ''type'' \<noteq> Some (JStr ''error'')"
    and "l \<in> set (filterBoolean (split_nl (stdout @ stderr)))"
    and "v \<in> set (textOfLine N parse l)" and "\<not> stringable v"
  shows "execute N parse stdout stderr exitCode = Inl TypeError"
proof -
  from assms(1) have "checkForErrors N parse (stdout @ stderr) = None"
    unfolding checkForErrors_def by (rule firstError_none)
  with parseOutput_throws[OF assms(2-4)] show ?thesis
    by (simp add: execute_def aggregate_def)
qed

theorem C8_execute_rejects_unconvertible_text_witness:
  \<open>execute natNumbers
     (parseTable
        [(''{"type":"text","part":{"text":{"toString":1}}}'',
          JObj [(''type'', JStr ''text''),
                (''part'', JObj [(''text'', JObj [(''toString'', JNum 1)])])])])
     (''{"type":"text","part":{"text":{"toString":1}}}'' @ [NL] @ ''build failed'' @ [NL])
     []
     1
   = Inl TypeError\<close>
proof -
  let ?line = \<open>''{"type":"text","part":{"text":{"toString":1}}}''\<close>
  let ?v = "JObj [(''toString'', JNum 1)] :: nat json"
  let ?p = "JObj [(''type'', JStr ''text''), (''part'', JObj [(''text'', ?v)])]"
  let ?parse = "parseTable [(?line, ?p)]"
  let ?stdout = "?line @ [NL] @ ''build failed'' @ [NL]"
  have ls: "filterBoolean (split_nl (?stdout @ [])) = [?line, ''build failed'']"
    by code_simp
  have pl: "?parse ?line = Inr ?p" "?parse ''build failed'' = Inl SyntaxError"
    by code_simp+
  have h1: "\<forall>l \<in> set (filterBoolean (split_nl (?stdout @ []))).
              \<forall>p. ?parse l = Inr p \<longrightarrow> readProp p ''type'' \<noteq> Some (JStr ''error'')"
    unfolding ls using pl by auto
  have h2: "?line \<in> set (filterBoolean (split_nl (?stdout @ [])))"
    unfolding ls by simp
  have h3: "?v \<in> set (textOfLine natNumbers ?parse ?line)"
    by code_simp
  have h4: "\<not> stringable ?v"
    by code_simp
  show ?thesis
    by (rule C8_execute_rejects_unconvertible_text
        [where parse = ?parse and N = natNumbers, OF h1 h2 h3 h4])
qed


section \<open>Command markers\<close>

text \<open>
  The Claude shape: the first \<open>tool_use\<close> item of \<open>message.content\<close> is the one
  classified, and the echoed command is the lower-cased one.
\<close>

lemma claude_format_example:
  \<open>detectStepFromOutput natNumbers
     (parseTable
        [(''{"type":"assistant","message":{"content":[{"type":"text","text":"ok"},{"type":"tool_use","name":"Bash","input":{"command":"NPM test"}},{"type":"tool_use","name":"Read","input":{"file_path":"a.ts"}}]}}'',
          JObj [(''type'', JStr ''assistant''),
                (''message'', JObj [(''content'', JArr
                   [JObj [(''type'', JStr ''text''), (''text'', JStr ''ok'')],
                    JObj [(''type'', JStr ''tool_use''), (''name'', JStr ''Bash''),
                          (''input'', JObj [(''command'', JStr ''NPM test'')])],
                    JObj [(''type'', JStr ''tool_use''), (''name'', JStr ''Read''),
                          (''input'', JObj [(''file_path'', JStr ''a.ts'')])]])])])])
     ''{"type":"assistant","message":{"content":[{"type":"text","text":"ok"},{"type":"tool_use","name":"Bash","input":{"command":"NPM test"}},{"type":"tool_use","name":"Read","input":{"file_path":"a.ts"}}]}}''
    = Inr (Some \<lparr>step = ''Testing'', toolOutput = Some ''Running: npm test'',
                  diff = None, todos = None\<rparr>)\<close>
  by code_simp

lemma of_char_bits:
  "(of_char (Char b0 b1 b2 b3 b4 b5 b6 b7) :: nat) =
     (of_bool b0 + 2 * of_bool b1 + 4 * of_bool b2 + 8 * of_bool b3 + 16 * of_bool b4)
     + 32 * of_bool b5 + 64 * of_bool b6 + 128 * of_bool b7"
  by (simp add: of_char_Char)

lemma low_bits: "(of_bool b0 + 2 * of_bool b1 + 4 * of_bool b2 + 8 * of_bool b3 + 16 * of_bool b4 :: nat) < 32"
  by (cases b0; cases b1; cases b2; cases b3; cases b4) simp_all

lemma lowerChar_idem: "lowerChar (lowerChar c) = lowerChar c"
proof (cases c)
  case (Char b0 b1 b2 b3 b4 b5 b6 b7)
  define x :: nat where "x = of_bool b0 + 2 * of_bool b1 + 4 * of_bool b2 + 8 * of_bool b3 + 16 * of_bool b4"
  have x: "x < 32" unfolding x_def by (rule low_bits)
  have n: "(of_char c :: nat) = x + 32 * of_bool b5 + 64 * of_bool b6 + 128 * of_bool b7"
    unfolding Char x_def by (rule of_char_bits)
  have n': "(of_char (Char b0 b1 b2 b3 b4 True b6 b7) :: nat) = x + 32 + 64 * of_bool b6 + 128 * of_bool b7"
    unfolding x_def by (simp add: of_char_bits)
  let ?up = "\<lambda>n::nat. (65 \<le> n \<and> n \<le> 90) \<or> (192 \<le> n \<and> n \<le> 222 \<and> n \<noteq> 215)"
  have not_up: "\<not> ?up (of_char (Char b0 b1 b2 b3 b4 True b6 b7))"
    unfolding n' using x by (cases b6; cases b7) auto
  have keep: "lowerChar d = d" if "\<not> ?up (of_char d)" for d
    using that unfolding lowerChar_def Let_def by (simp only: if_False)
  show ?thesis
  proof (cases "?up (of_char c)")
    case False
    then have "lowerChar c = c" by (rule keep)
    then show ?thesis by simp
  next
    case True
    then have "lowerChar c = Char b0 b1 b2 b3 b4 True b6 b7"
      unfolding lowerChar_def Let_def Char by (simp only: if_True char.case)
    with keep[OF not_up] show ?thesis by simp
  qed
qed

lemma toLowerCase_idem: "toLowerCase (toLowerCase s) = toLowerCase s"
  by (simp add: toLowerCase_def lowerChar_idem)

lemma detectStepFromOutput_fields:
  assumes "startsWith (trim line) ''{''" and "parse (trim line) = Inr p"
    and "extractToolFromClaudeFormat N (Some p) = Inr ct"
    and "toolFields N (Some p) ct = Inr tf"
  shows "detectStepFromOutput N parse line =
           try_catch (classifyFields N (rawCommand N (Some p) ct) tf) (Inr None)"
  using assms by (simp add: detectStepFromOutput_def detectStepBody_def)

lemma orStr_Inr:
  "orStr a b = Inr s \<longleftrightarrow>
     (\<exists>v. a = Inr v \<and> (case v of Some t \<Rightarrow> if t \<noteq> [] then s = t else b = Inr s | None \<Rightarrow> b = Inr s))"
  by (cases a) (auto simp: orStr_def split: option.splits)

lemma lowerField_nonempty:
  assumes "lowerField (Some p) k = Inr (Some s)" and "s \<noteq> []"
  shows "\<exists>r. readProp p k = Some (JStr r) \<and> r \<noteq> [] \<and> toLowerCase r = s"
proof -
  from assms(1) obtain v where v: "get (Some p) k = Inr v" "callq_toLowerCase v = Inr (Some s)"
    by (auto simp: lowerField_def bindE_Inr)
  from v(1) have "v = readProp p k" by (auto simp: get_def getq_def split: if_splits)
  moreover from v(2) obtain j where "v = Some j" "j \<noteq> JNull" "call_toLowerCase j = Inr s"
    by (cases v) (auto simp: callq_toLowerCase_def bindE_Inr split: if_splits)
  moreover then obtain r where "j = JStr r" "toLowerCase r = s" by (cases j) auto
  moreover from this assms(2) have "r \<noteq> []" by (auto simp: toLowerCase_def)
  ultimately show ?thesis by metis
qed

lemma rawCommand_is_string:
  assumes "toolFields N (Some p) ct = Inr tf" and "tf_command tf \<noteq> []"
  shows "\<exists>r. rawCommand N (Some p) ct = JStr r \<and> r \<noteq> []
           \<and> (case ct of
                 Some c \<Rightarrow> r = tf_command tf
               | None \<Rightarrow> readProp p ''command'' = Some (JStr r))"
proof (cases ct)
  case (Some c)
  with assms have "ct_command c \<noteq> []" "ct_command c = tf_command tf"
    by (auto simp: toolFields_def)
  with Some show ?thesis by (simp add: rawCommand_def js_or_def js_or_lit_def)
next
  case None
  with assms(1) have "flatFields N (Some p) = Inr tf" by (simp add: toolFields_def)
  then have "orStr (lowerField (Some p) ''command'') (Inr []) = Inr (tf_command tf)"
    by (auto simp: flatFields_def bindE_Inr)
  with assms(2) have "lowerField (Some p) ''command'' = Inr (Some (tf_command tf))"
    by (auto simp: orStr_Inr split: option.splits if_splits)
  from lowerField_nonempty[OF this assms(2)] obtain r where
    "readProp p ''command'' = Some (JStr r)" "r \<noteq> []" by auto
  with None show ?thesis by (simp add: rawCommand_def js_or_def js_or_lit_def getq_def)
qed

lemma commandEcho_str: "r \<noteq> [] \<Longrightarrow> commandEcho N (JStr r) = Inr (Some (formatCommand r))"
  by (simp add: commandEcho_def)


lemma classifyFields_bash_lint:
  assumes "tf_toolName tf = ''bash''" and "includes_str (tf_command tf) ''lint''"
    and "\<not> includes_str (tf_command tf) ''git commit''"
    and "\<not> includes_str (tf_description tf) ''git commit''"
    and "\<not> includes_str (tf_command tf) ''git add''"
    and "\<not> includes_str (tf_description tf) ''git add''"
    and "r \<noteq> []"
  shows "classifyFields N (JStr r) tf =
           Inr (Some \<lparr>step = ''Linting'', toolOutput = Some (formatCommand r),
                      diff = None, todos = None\<rparr>)"
  using assms by (simp add: classifyFields_def bashRules_def commandEcho_str)

lemma includes_nonempty: "includes_str s sub \<Longrightarrow> sub \<noteq> [] \<Longrightarrow> s \<noteq> []"
  by (cases s) auto

lemma oc_toolRules_bash:
  assumes "js_or_lit N (js_or N (getq inp ''file_path'') (getq inp ''path'')) (JStr []) = JStr rp"
    and "js_or_lit N (getq inp ''command'') (JStr []) = JStr c"
  shows "toolRules N cur ''bash'' inp = Inr (Some (oc_bashRules cur (toLowerCase c)))"
  using assms by (simp add: toolRules_def)

lemma todoWrite_other:
  "tn \<noteq> ''todowrite'' \<Longrightarrow> tn \<noteq> ''mcp_todowrite'' \<Longrightarrow> todoWrite N tn inp = Inr None"
  by (simp add: todoWrite_def)

lemma detectStepFromLine_bash:
  assumes "startsWith (trim line) ''{''" and "parse (trim line) = Inr p"
    and "readProp p ''type'' = Some (JStr ''tool_call'')"
    and "readProp p ''part'' = Some part"
    and "readProp part ''name'' = Some (JStr nm)" and "toLowerCase nm = ''bash''"
    and "inp = Some (js_or_lit N (readProp part ''input'') (JObj []))"
    and "js_or_lit N (js_or N (getq inp ''file_path'') (getq inp ''path'')) (JStr []) = JStr rp"
    and "js_or_lit N (getq inp ''command'') (JStr []) = JStr c"
  shows "detectStepFromLine N parse cur line = Inr (Some (oc_bashRules cur (toLowerCase c)), cur)"
proof -
  have ne: "''bash'' \<noteq> []" by simp
  show ?thesis
    using detectStepFromLine_toolCall
      [where cur = cur and parse = parse and line = line, OF assms(1-6) ne assms(7)]
      oc_toolRules_bash[OF assms(8,9), of cur]
    by (simp add: todoWrite_other)
qed

text \<open>With a lint marker in the command no rule returns \<open>Testing\<close>.\<close>

lemma writeRules_not_testing: "writeRules tf = Some i \<longrightarrow> step i \<noteq> ''Testing''"
  unfolding writeRules_def Let_def
  by (intro res_if) auto

lemma bashRules_lint_step:
  assumes "includes_str (tf_command tf) ''lint''"
  shows "bashRules N raw tf = Inr (Some i) \<longrightarrow> step i \<noteq> ''Testing''"
proof -
  have "bashRules N raw tf =
      (if includes_str (tf_command tf) ''git commit''
          \<or> includes_str (tf_description tf) ''git commit'' then
         Inr (Some \<lparr>step = ''Committing'', toolOutput = None, diff = None, todos = None\<rparr>)
       else if includes_str (tf_command tf) ''git add''
               \<or> includes_str (tf_description tf) ''git add'' then
         Inr (Some \<lparr>step = ''Staging'', toolOutput = None, diff = None, todos = None\<rparr>)
       else bindE (commandEcho N raw) (\<lambda>out.
              Inr (Some \<lparr>step = ''Linting'', toolOutput = out, diff = None, todos = None\<rparr>)))"
    using assms by (simp add: bashRules_def)
  then show ?thesis
    by (simp only:) (intro res_if res_bind, auto)
qed

lemma classifyFields_lint_step:
  assumes "includes_str (tf_command tf) ''lint''"
  shows "classifyFields N raw tf = Inr (Some i) \<longrightarrow> step i \<noteq> ''Testing''"
  unfolding classifyFields_def Let_def
  apply (intro res_if res_bind res_opt)
  using writeRules_not_testing[of tf i] bashRules_lint_step[OF assms, of N raw i]
  by auto

lemma oc_bashRules_lint_step:
  "includes_str cmd ''lint'' \<Longrightarrow> step (oc_bashRules cur cmd) \<noteq> ''Testing''"
  by (simp add: oc_bashRules_def)

lemma toolRules_bash_result:
  assumes "js_or_lit N (getq inp ''command'') (JStr []) = JStr c"
  shows "toolRules N cur ''bash'' inp = Inr r \<longrightarrow> r = Some (oc_bashRules cur (toLowerCase c))"
  using assms by (simp add: toolRules_def split: json.split)

lemma detectStepFromLine_bash_result:
  assumes "startsWith (trim line) ''{''" and "parse (trim line) = Inr p"
    and "readProp p ''type'' = Some (JStr ''tool_call'')"
    and "readProp p ''part'' = Some part"
    and "readProp part ''name'' = Some (JStr nm)" and "toLowerCase nm = ''bash''"
    and "inp = Some (js_or_lit N (readProp part ''input'') (JObj []))"
    and "js_or_lit N (getq inp ''command'') (JStr []) = JStr c"
    and "detectStepFromLine N parse cur line = Inr (Some i, t)"
  shows "i = oc_bashRules cur (toLowerCase c)"
proof -
  have ne: "''bash'' \<noteq> []" by simp
  note red = detectStepFromLine_toolCall
      [where cur = cur and parse = parse and line = line, OF assms(1-6) ne assms(7)]
  show ?thesis
  proof (cases "toolRules N cur ''bash'' inp")
    case (Inl e)
    with red assms(9) show ?thesis by (simp add: todoWrite_other)
  next
    case (Inr r)
    with toolRules_bash_result[OF assms(8), of cur r]
    have "r = Some (oc_bashRules cur (toLowerCase c))" by simp
    with red assms(9) Inr show ?thesis by (simp add: todoWrite_other)
  qed
qed

text \<open>
  The adapters of \<open>detectStepFromOutput\<close> return fields for every flat line whose
  fields are absent or strings; they throw when a field they read holds another
  value, and the classifier then returns \<open>null\<close>.
\<close>

lemma lowerField_ok:
  assumes "p \<noteq> JNull" and "readProp p k = None \<or> (\<exists>s. readProp p k = Some (JStr s))"
  shows "\<exists>v. lowerField (Some p) k = Inr v"
  using assms
  by (auto simp: lowerField_def get_def nullish_def getq_def callq_toLowerCase_def)

lemma orStr_ok: "a = Inr v \<Longrightarrow> b = Inr s \<Longrightarrow> \<exists>s'. orStr a b = Inr s'"
  by (cases v) (simp_all add: orStr_def)

lemma js_or_str:
  assumes "a = None \<or> (\<exists>s. a = Some (JStr s))" and "b = None \<or> (\<exists>s. b = Some (JStr s))"
  shows "js_or N a b = None \<or> (\<exists>s. js_or N a b = Some (JStr s))"
  using assms by (auto simp: js_or_def)

lemma js_or_lit_str:
  assumes "a = None \<or> (\<exists>s. a = Some (JStr s))"
  shows "\<exists>s. call_toLowerCase (js_or_lit N a (JStr [])) = Inr s"
  using assms by (auto simp: js_or_lit_def)

lemma flat_adapter_ok:
  assumes "p \<noteq> JNull" and "readProp p ''type'' \<noteq> Some (JStr ''assistant'')"
    and "\<forall>k \<in> set [''tool'', ''name'', ''tool_name'', ''command'', ''file_path'',
                     ''filePath'', ''path'', ''description''].
           readProp p k = None \<or> (\<exists>s. readProp p k = Some (JStr s))"
  shows "extractToolFromClaudeFormat N (Some p) = Inr None
         \<and> (\<exists>tf. toolFields N (Some p) None = Inr tf)"
proof -
  have k: "readProp p k = None \<or> (\<exists>s. readProp p k = Some (JStr s))"
    if "k \<in> set [''tool'', ''name'', ''tool_name'', ''command'', ''file_path'',
                  ''filePath'', ''path'', ''description'']" for k
    using assms(3) that by blast
  from assms(1,2) have ex: "extractToolFromClaudeFormat N (Some p) = Inr None"
    by (simp add: extractToolFromClaudeFormat_def get_def nullish_def getq_def)
  obtain a b c d where
    "lowerField (Some p) ''tool'' = Inr a" "lowerField (Some p) ''name'' = Inr b"
    "lowerField (Some p) ''tool_name'' = Inr c" "lowerField (Some p) ''command'' = Inr d"
    using lowerField_ok[OF assms(1) k, of "''tool''"] lowerField_ok[OF assms(1) k, of "''name''"]
      lowerField_ok[OF assms(1) k, of "''tool_name''"]
      lowerField_ok[OF assms(1) k, of "''command''"]
    by auto
  then obtain tn cmd where
    tn: "orStr (lowerField (Some p) ''tool'')
           (orStr (lowerField (Some p) ''name'')
              (orStr (lowerField (Some p) ''tool_name'') (Inr []))) = Inr tn"
    and cmd: "orStr (lowerField (Some p) ''command'') (Inr []) = Inr cmd"
    by (metis orStr_ok)
  have g: "getq (Some p) k = None \<or> (\<exists>s. getq (Some p) k = Some (JStr s))"
    if "k \<in> set [''tool'', ''name'', ''tool_name'', ''command'', ''file_path'',
                  ''filePath'', ''path'', ''description'']" for k
    using k[OF that] by (simp add: getq_def)
  have f1: "js_or N (getq (Some p) ''filePath'') (getq (Some p) ''path'') = None
            \<or> (\<exists>s. js_or N (getq (Some p) ''filePath'') (getq (Some p) ''path'')
                      = Some (JStr s))"
    by (rule js_or_str; rule g; simp)
  have f2: "js_or N (getq (Some p) ''file_path'')
              (js_or N (getq (Some p) ''filePath'') (getq (Some p) ''path'')) = None
            \<or> (\<exists>s. js_or N (getq (Some p) ''file_path'')
                        (js_or N (getq (Some p) ''filePath'') (getq (Some p) ''path''))
                      = Some (JStr s))"
    by (rule js_or_str[OF _ f1]; rule g; simp)
  obtain fp where
    fp: "call_toLowerCase
           (js_or_lit N
              (js_or N (getq (Some p) ''file_path'')
                 (js_or N (getq (Some p) ''filePath'') (getq (Some p) ''path'')))
              (JStr [])) = Inr fp"
    using js_or_lit_str[OF f2] by blast
  have f3: "getq (Some p) ''description'' = None
            \<or> (\<exists>s. getq (Some p) ''description'' = Some (JStr s))"
    by (rule g) simp
  obtain ds where
    ds: "call_toLowerCase (js_or_lit N (getq (Some p) ''description'') (JStr [])) = Inr ds"
    using js_or_lit_str[OF f3] by blast
  from tn cmd fp ds have "\<exists>tf. flatFields N (Some p) = Inr tf"
    by (simp add: flatFields_def)
  with ex show ?thesis by (simp add: toolFields_def)
qed

lemma adapter_throws_example:
  \<open>detectStepFromOutput natNumbers
     (parseTable
        [(''{"tool":"bash","command":"npm run lint && npm test","description":5}'',
          JObj [(''tool'', JStr ''bash''), (''command'', JStr ''npm run lint && npm test''),
                (''description'', JNum 5)])])
     ''{"tool":"bash","command":"npm run lint && npm test","description":5}''
    = Inr None
   \<and> detectStepFromOutput natNumbers
     (parseTable
        [(''{"type":"assistant","message":{"content":[null,{"type":"tool_use","name":"Bash","input":{"command":"eslint ."}}]}}'',
          JObj [(''type'', JStr ''assistant''),
                (''message'', JObj [(''content'', JArr
                   [JNull,
                    JObj [(''type'', JStr ''tool_use''), (''name'', JStr ''Bash''),
                          (''input'', JObj [(''command'', JStr ''eslint .'')])]])])])])
     ''{"type":"assistant","message":{"content":[null,{"type":"tool_use","name":"Bash","input":{"command":"eslint ."}}]}}''
    = Inr None\<close>
  by code_simp

text \<open>
  C2 (as the code has it). Commands are compared in lower case.

  \<open>detectStepFromOutput\<close>, on a line that starts with a brace once trimmed, that
  parses, and from which \<open>extractToolFromClaudeFormat\<close> and the flat extraction
  return the fields without throwing: when the command contains \<open>lint\<close> the step
  is never \<open>Testing\<close>; and when the tool is \<open>bash\<close>, the command contains \<open>lint\<close>
  and \<open>test\<close>, and neither the command nor the description contains \<open>git commit\<close>
  or \<open>git add\<close>, the step is \<open>Linting\<close>, with the echo of \<open>rawCommand\<close> (the raw
  \<open>parsed.command\<close> in the flat shape, the lower-cased command in the Claude shape)
  as tool output.

  \<open>detectStepFromLine\<close>, on a \<open>tool_call\<close> event whose name is \<open>bash\<close> in lower case
  and whose \<open>input.command || ""\<close> is a string: when the command contains \<open>lint\<close>
  the step is never \<open>Testing\<close>; and when \<open>input.file_path || input.path || ""\<close> is a
  string too, the command contains \<open>lint\<close> and \<open>test\<close> and contains neither
  \<open>git commit\<close> nor \<open>git add\<close>, the step is \<open>Linting\<close>, with the echo of the
  lower-cased command as tool output and the tracked todos when there are any.
\<close>

theorem C2_lint_before_test:
  "(startsWith (trim line) ''{'' \<and> parse (trim line) = Inr p
      \<and> extractToolFromClaudeFormat N (Some p) = Inr ct \<and> toolFields N (Some p) ct = Inr tf
      \<and> includes_str (tf_command tf) ''lint''
    \<longrightarrow> (\<forall>i. detectStepFromOutput N parse line = Inr (Some i) \<longrightarrow> step i \<noteq> ''Testing''))
   \<and> (startsWith (trim line) ''{'' \<and> parse (trim line) = Inr p
      \<and> extractToolFromClaudeFormat N (Some p) = Inr ct \<and> toolFields N (Some p) ct = Inr tf
      \<and> tf_toolName tf = ''bash''
      \<and> includes_str (tf_command tf) ''lint'' \<and> includes_str (tf_command tf) ''test''
      \<and> \<not> includes_str (tf_command tf) ''git commit''
      \<and> \<not> includes_str (tf_description tf) ''git commit''
      \<and> \<not> includes_str (tf_command tf) ''git add''
      \<and> \<not> includes_str (tf_description tf) ''git add''
    \<longrightarrow> (\<exists>r. rawCommand N (Some p) ct = JStr r
           \<and> (case ct of
                 Some c \<Rightarrow> r = tf_command tf
               | None \<Rightarrow> readProp p ''command'' = Some (JStr r))
           \<and> detectStepFromOutput N parse line =
               Inr (Some \<lparr>step = ''Linting'', toolOutput = Some (formatCommand r),
                          diff = None, todos = None\<rparr>)))
   \<and> (startsWith (trim line') ''{'' \<and> parse (trim line') = Inr p'
      \<and> readProp p' ''type'' = Some (JStr ''tool_call'')
      \<and> readProp p' ''part'' = Some part
      \<and> readProp part ''name'' = Some (JStr nm) \<and> toLowerCase nm = ''bash''
      \<and> inp = Some (js_or_lit N (readProp part ''input'') (JObj []))
      \<and> js_or_lit N (getq inp ''command'') (JStr []) = JStr c
      \<and> includes_str (toLowerCase c) ''lint''
    \<longrightarrow> (\<forall>i t. detectStepFromLine N parse cur line' = Inr (Some i, t)
            \<longrightarrow> step i \<noteq> ''Testing''))
   \<and> (startsWith (trim line') ''{'' \<and> parse (trim line') = Inr p'
      \<and> readProp p' ''type'' = Some (JStr ''tool_call'')
      \<and> readProp p' ''part'' = Some part
      \<and> readProp part ''name'' = Some (JStr nm) \<and> toLowerCase nm = ''bash''
      \<and> inp = Some (js_or_lit N (readProp part ''input'') (JObj []))
      \<and> js_or_lit N (js_or N (getq inp ''file_path'') (getq inp ''path'')) (JStr []) = JStr rp
      \<and> js_or_lit N (getq inp ''command'') (JStr []) = JStr c
      \<and> includes_str (toLowerCase c) ''lint'' \<and> includes_str (toLowerCase c) ''test''
      \<and> \<not> includes_str (toLowerCase c) ''git commit''
      \<and> \<not> includes_str (toLowerCase c) ''git add''
    \<longrightarrow> detectStepFromLine N parse cur line' =
          Inr (Some \<lparr>step = ''Linting'',
                     toolOutput = Some (''Running: '' @ truncate_str (toLowerCase c) 50),
                     diff = None, todos = (if cur \<noteq> [] then Some cur else None)\<rparr>, cur))"
proof (intro conjI impI allI; elim conjE)
  fix i
  assume a: "startsWith (trim line) ''{''" "parse (trim line) = Inr p"
    "extractToolFromClaudeFormat N (Some p) = Inr ct" "toolFields N (Some p) ct = Inr tf"
    and l: "includes_str (tf_command tf) ''lint''"
    and r: "detectStepFromOutput N parse line = Inr (Some i)"
  from r have "classifyFields N (rawCommand N (Some p) ct) tf = Inr (Some i)"
    unfolding detectStepFromOutput_fields[where parse = parse and line = line, OF a]
    by (cases "classifyFields N (rawCommand N (Some p) ct) tf") simp_all
  with classifyFields_lint_step[OF l] show "step i \<noteq> ''Testing''" by blast
next
  assume a: "startsWith (trim line) ''{''" "parse (trim line) = Inr p"
    "extractToolFromClaudeFormat N (Some p) = Inr ct" "toolFields N (Some p) ct = Inr tf"
    and b: "tf_toolName tf = ''bash''" "includes_str (tf_command tf) ''lint''"
    "\<not> includes_str (tf_command tf) ''git commit''"
    "\<not> includes_str (tf_description tf) ''git commit''"
    "\<not> includes_str (tf_command tf) ''git add''"
    "\<not> includes_str (tf_description tf) ''git add''"
  from b(2) have "tf_command tf \<noteq> []" by (rule includes_nonempty) simp
  from rawCommand_is_string[OF a(4) this] obtain r where
    r: "rawCommand N (Some p) ct = JStr r" "r \<noteq> []"
    "case ct of Some c \<Rightarrow> r = tf_command tf
     | None \<Rightarrow> readProp p ''command'' = Some (JStr r)"
    by auto
  have "detectStepFromOutput N parse line =
               Inr (Some \<lparr>step = ''Linting'', toolOutput = Some (formatCommand r),
                          diff = None, todos = None\<rparr>)"
    unfolding detectStepFromOutput_fields[where parse = parse and line = line, OF a] r(1)
      classifyFields_bash_lint[OF b r(2), of N]
    by simp
  with r(1,3)
  show "\<exists>r. rawCommand N (Some p) ct = JStr r
           \<and> (case ct of
                 Some c \<Rightarrow> r = tf_command tf
               | None \<Rightarrow> readProp p ''command'' = Some (JStr r))
           \<and> detectStepFromOutput N parse line =
               Inr (Some \<lparr>step = ''Linting'', toolOutput = Some (formatCommand r),
                          diff = None, todos = None\<rparr>)"
    by blast
next
  fix i t
  assume a: "startsWith (trim line') ''{''" "parse (trim line') = Inr p'"
    "readProp p' ''type'' = Some (JStr ''tool_call'')"
    "readProp p' ''part'' = Some part"
    "readProp part ''name'' = Some (JStr nm)" "toLowerCase nm = ''bash''"
    "inp = Some (js_or_lit N (readProp part ''input'') (JObj []))"
    "js_or_lit N (getq inp ''command'') (JStr []) = JStr c"
    and l: "includes_str (toLowerCase c) ''lint''"
    and r: "detectStepFromLine N parse cur line' = Inr (Some i, t)"
  from detectStepFromLine_bash_result[where parse = parse and line = line', OF a r]
    oc_bashRules_lint_step[OF l, of cur]
  show "step i \<noteq> ''Testing''" by simp
next
  assume a: "startsWith (trim line') ''{''" "parse (trim line') = Inr p'"
    "readProp p' ''type'' = Some (JStr ''tool_call'')"
    "readProp p' ''part'' = Some part"
    "readProp part ''name'' = Some (JStr nm)" "toLowerCase nm = ''bash''"
    "inp = Some (js_or_lit N (readProp part ''input'') (JObj []))"
    "js_or_lit N (js_or N (getq inp ''file_path'') (getq inp ''path'')) (JStr []) = JStr rp"
    "js_or_lit N (getq inp ''command'') (JStr []) = JStr c"
    and b: "includes_str (toLowerCase c) ''lint''"
    "\<not> includes_str (toLowerCase c) ''git commit''"
    "\<not> includes_str (toLowerCase c) ''git add''"
  from b(1) have "toLowerCase c \<noteq> []" by (rule includes_nonempty) simp
  with b detectStepFromLine_bash[where parse = parse and line = line', OF a, of cur]
  show "detectStepFromLine N parse cur line' =
          Inr (Some \<lparr>step = ''Linting'',
                     toolOutput = Some (''Running: '' @ truncate_str (toLowerCase c) 50),
                     diff = None, todos = (if cur \<noteq> [] then Some cur else None)\<rparr>, cur)"
    by (simp add: oc_bashRules_def oc_commandEcho_def carryTodos_def)
qed

text \<open>
  C2 as stated fails on a command that also holds a git marker: the git checks
  come first in both classifiers, and \<open>git commit -m lint-test\<close> is \<open>Committing\<close>.
\<close>

theorem C2_counterexample:
  \<open>includes_str ''git commit -m lint-test'' ''lint''
   \<and> includes_str ''git commit -m lint-test'' ''test''
   \<and> detectStepFromOutput natNumbers
        (parseTable
           [(''{"tool":"bash","command":"git commit -m lint-test"}'',
             JObj [(''tool'', JStr ''bash''), (''command'', JStr ''git commit -m lint-test'')])])
        ''{"tool":"bash","command":"git commit -m lint-test"}''
       = Inr (Some \<lparr>step = ''Committing'', toolOutput = None, diff = None, todos = None\<rparr>)
   \<and> detectStepFromLine natNumbers
        (parseTable
           [(''{"type":"tool_call","part":{"name":"bash","input":{"command":"git commit -m lint-test"}}}'',
             JObj [(''type'', JStr ''tool_call''),
                   (''part'', JObj [(''name'', JStr ''bash''),
                      (''input'', JObj [(''command'', JStr ''git commit -m lint-test'')])])])])
        []
        ''{"type":"tool_call","part":{"name":"bash","input":{"command":"git commit -m lint-test"}}}''
       = Inr (Some \<lparr>step = ''Committing'', toolOutput = None, diff = None, todos = None\<rparr>, [])\<close>
  by code_simp

theorem C2_lint_before_test_witness:
  \<open>detectStepFromOutput natNumbers
     (parseTable
        [(''{"tool":"Bash","command":"npm run lint && npm test"}'',
          JObj [(''tool'', JStr ''Bash''), (''command'', JStr ''npm run lint && npm test'')]),
         (''{"type":"tool_call","part":{"name":"bash","input":{"command":"npm run lint && npm test"}}}'',
          JObj [(''type'', JStr ''tool_call''),
                (''part'', JObj [(''name'', JStr ''bash''),
                   (''input'', JObj [(''command'', JStr ''npm run lint && npm test'')])])])])
     ''{"tool":"Bash","command":"npm run lint && npm test"}''
    = Inr (Some \<lparr>step = ''Linting'', toolOutput = Some ''Running: npm run lint && npm test'',
                  diff = None, todos = None\<rparr>)
   \<and> detectStepFromLine natNumbers
     (parseTable
        [(''{"tool":"Bash","command":"npm run lint && npm test"}'',
          JObj [(''tool'', JStr ''Bash''), (''command'', JStr ''npm run lint && npm test'')]),
         (''{"type":"tool_call","part":{"name":"bash","input":{"command":"npm run lint && npm test"}}}'',
          JObj [(''type'', JStr ''tool_call''),
                (''part'', JObj [(''name'', JStr ''bash''),
                   (''input'', JObj [(''command'', JStr ''npm run lint && npm test'')])])])])
     []
     ''{"type":"tool_call","part":{"name":"bash","input":{"command":"npm run lint && npm test"}}}''
    = Inr (Some \<lparr>step = ''Linting'', toolOutput = Some ''Running: npm run lint && npm test'',
                  diff = None, todos = None\<rparr>, [])\<close>
proof -
  let ?lineA = \<open>''{"tool":"Bash","command":"npm run lint && npm test"}''\<close>
  let ?lineB = \<open>''{"type":"tool_call","part":{"name":"bash","input":{"command":"npm run lint && npm test"}}}''\<close>
  let ?pA = "JObj [(''tool'', JStr ''Bash''), (''command'', JStr ''npm run lint && npm test'')]
               :: nat json"
  let ?part = "JObj [(''name'', JStr ''bash''),
                     (''input'', JObj [(''command'', JStr ''npm run lint && npm test'')])]
               :: nat json"
  let ?pB = "JObj [(''type'', JStr ''tool_call''), (''part'', ?part)]"
  let ?P = "parseTable [(?lineA, ?pA), (?lineB, ?pB)]"
  let ?tf = "\<lparr>tf_toolName = ''bash'', tf_filePath = [],
              tf_command = ''npm run lint && npm test'', tf_description = []\<rparr>"
  let ?inp = "Some (JObj [(''command'', JStr ''npm run lint && npm test'')] :: nat json)"
  have A: "startsWith (trim ?lineA) ''{'' \<and> ?P (trim ?lineA) = Inr ?pA
      \<and> extractToolFromClaudeFormat natNumbers (Some ?pA) = Inr None
      \<and> toolFields natNumbers (Some ?pA) None = Inr ?tf
      \<and> tf_toolName ?tf = ''bash''
      \<and> includes_str (tf_command ?tf) ''lint'' \<and> includes_str (tf_command ?tf) ''test''
      \<and> \<not> includes_str (tf_command ?tf) ''git commit''
      \<and> \<not> includes_str (tf_description ?tf) ''git commit''
      \<and> \<not> includes_str (tf_command ?tf) ''git add''
      \<and> \<not> includes_str (tf_description ?tf) ''git add''"
    by code_simp
  have B: "startsWith (trim ?lineB) ''{'' \<and> ?P (trim ?lineB) = Inr ?pB
      \<and> readProp ?pB ''type'' = Some (JStr ''tool_call'')
      \<and> readProp ?pB ''part'' = Some ?part
      \<and> readProp ?part ''name'' = Some (JStr ''bash'') \<and> toLowerCase ''bash'' = ''bash''
      \<and> ?inp = Some (js_or_lit natNumbers (readProp ?part ''input'') (JObj []))
      \<and> js_or_lit natNumbers (js_or natNumbers (getq ?inp ''file_path'') (getq ?inp ''path''))
            (JStr []) = JStr []
      \<and> js_or_lit natNumbers (getq ?inp ''command'') (JStr []) = JStr ''npm run lint && npm test''
      \<and> includes_str (toLowerCase ''npm run lint && npm test'') ''lint''
      \<and> includes_str (toLowerCase ''npm run lint && npm test'') ''test''
      \<and> \<not> includes_str (toLowerCase ''npm run lint && npm test'') ''git commit''
      \<and> \<not> includes_str (toLowerCase ''npm run lint && npm test'') ''git add''"
    by code_simp
  have raw: "rawCommand natNumbers (Some ?pA) None = JStr ''npm run lint && npm test''"
    by code_simp
  have echo: "formatCommand ''npm run lint && npm test'' = ''Running: npm run lint && npm test''"
    "''Running: '' @ truncate_str (toLowerCase ''npm run lint && npm test'') 50
       = ''Running: npm run lint && npm test''"
    by code_simp+
  note C = C2_lint_before_test [where line = ?lineA and parse = ?P and p = ?pA and N = natNumbers and ct = None
      and tf = ?tf and line' = ?lineB and p' = ?pB and part = ?part and nm = \<open>''bash''\<close>
      and inp = ?inp and rp = \<open>[]\<close> and c = \<open>''npm run lint && npm test''\<close> and cur = \<open>[]\<close>]
  from C[THEN conjunct2, THEN conjunct1, THEN mp, OF A] obtain r where
    r: "rawCommand natNumbers (Some ?pA) None = JStr r"
    and ra: "detectStepFromOutput natNumbers ?P ?lineA =
               Inr (Some \<lparr>step = ''Linting'', toolOutput = Some (formatCommand r),
                          diff = None, todos = None\<rparr>)"
    by blast
  from r raw have "r = ''npm run lint && npm test''" by (simp only: json.inject)
  with ra echo(1) have 1: "detectStepFromOutput natNumbers ?P ?lineA =
               Inr (Some \<lparr>step = ''Linting'', toolOutput = Some ''Running: npm run lint && npm test'',
                  diff = None, todos = None\<rparr>)"
    by (simp only:)
  from C[THEN conjunct2, THEN conjunct2, THEN conjunct2, THEN mp, OF B] echo(2)
  have 2: "detectStepFromLine natNumbers ?P [] ?lineB =
      Inr (Some \<lparr>step = ''Linting'', toolOutput = Some ''Running: npm run lint && npm test'',
                  diff = None, todos = None\<rparr>, [])"
    by (simp only: if_False simp_thms)
  from 1 2 show ?thesis by (rule conjI)
qed


lemma includes_Nil: "sub \<noteq> [] \<Longrightarrow> \<not> includes_str [] sub"
  by simp

lemma classifyFields_markers:
  assumes "tf_toolName tf \<notin> {''read'', ''glob'', ''grep''}"
    and "tf_toolName tf = ''bash'' \<or> tf_command tf \<noteq> []"
    and "\<not> includes_str (tf_command tf) ''git commit''"
    and "\<not> includes_str (tf_description tf) ''git commit''"
    and "\<not> includes_str (tf_command tf) ''git add''"
    and "\<not> includes_str (tf_description tf) ''git add''"
    and "lint = (includes_str (tf_command tf) ''lint'' \<or> includes_str (tf_command tf) ''eslint''
                 \<or> includes_str (tf_command tf) ''biome''
                 \<or> includes_str (tf_command tf) ''prettier'')"
    and "test = (includes_str (tf_command tf) ''vitest'' \<or> includes_str (tf_command tf) ''jest''
                 \<or> includes_str (tf_command tf) ''bun test''
                 \<or> includes_str (tf_command tf) ''npm test''
                 \<or> includes_str (tf_command tf) ''pytest''
                 \<or> includes_str (tf_command tf) ''go test'')"
    and "tf_command tf \<noteq> [] \<longrightarrow> raw = JStr r \<and> r \<noteq> []"
  shows "classifyFields N raw tf =
           Inr (if lint then
                  Some \<lparr>step = ''Linting'', toolOutput = Some (formatCommand r),
                        diff = None, todos = None\<rparr>
                else if test then
                  Some \<lparr>step = ''Testing'', toolOutput = Some (formatCommand r),
                        diff = None, todos = None\<rparr>
                else if tf_toolName tf = ''bash'' \<and> tf_command tf \<noteq> [] then
                  Some \<lparr>step = ''Running command'', toolOutput = Some (formatCommand r),
                        diff = None, todos = None\<rparr>
                else writeRules tf)"
proof (cases "tf_command tf = []")
  case True
  with assms(7,8) have "\<not> lint" "\<not> test" by simp_all
  with True assms(1-6) show ?thesis
    by (simp add: classifyFields_def bashRules_def)
next
  case False
  with assms(9) have raw: "commandEcho N raw = Inr (Some (formatCommand r))"
    by (simp add: commandEcho_str)
  have br: "bashRules N raw tf =
      (if lint then
         Inr (Some \<lparr>step = ''Linting'', toolOutput = Some (formatCommand r),
                    diff = None, todos = None\<rparr>)
       else if test then
         Inr (Some \<lparr>step = ''Testing'', toolOutput = Some (formatCommand r),
                    diff = None, todos = None\<rparr>)
       else if tf_toolName tf = ''bash'' \<and> tf_command tf \<noteq> [] then
         Inr (Some \<lparr>step = ''Running command'', toolOutput = Some (formatCommand r),
                    diff = None, todos = None\<rparr>)
       else Inr None)"
    unfolding bashRules_def Let_def assms(7,8) raw using assms(3-6) by simp
  from False assms(1,2) show ?thesis
    unfolding classifyFields_def Let_def br by simp
qed

lemma oc_bashRules_markers:
  assumes "\<not> includes_str cmd ''git commit''" and "\<not> includes_str cmd ''git add''"
    and "lint = (includes_str cmd ''lint'' \<or> includes_str cmd ''eslint''
                 \<or> includes_str cmd ''biome'')"
    and "test = (includes_str cmd ''test'' \<or> includes_str cmd ''vitest''
                 \<or> includes_str cmd ''jest'')"
  shows "oc_bashRules cur cmd =
           \<lparr>step = (if lint then ''Linting'' else if test then ''Testing''
                    else ''Running command''),
            toolOutput = (if cmd \<noteq> [] then Some (''Running: '' @ truncate_str cmd 50) else None),
            diff = None, todos = (if cur \<noteq> [] then Some cur else None)\<rparr>"
  unfolding oc_bashRules_def assms(3,4) using assms(1,2)
  by (simp add: oc_commandEcho_def carryTodos_def)

text \<open>
  C3 (as the code has it), for an invocation with no \<open>git commit\<close> and no
  \<open>git add\<close> marker; commands are compared in lower case.

  \<open>detectStepFromOutput\<close>, on a line that starts with a brace once trimmed, that
  parses, from which \<open>extractToolFromClaudeFormat\<close> and the flat extraction return
  the fields without throwing, and whose tool is not \<open>read\<close>, \<open>glob\<close> or \<open>grep\<close> and
  is \<open>bash\<close> or comes with a command; the git markers are looked for in the
  command and in the description. The step is \<open>Linting\<close> exactly when the command
  contains \<open>lint\<close>, \<open>eslint\<close>, \<open>biome\<close> or \<open>prettier\<close>; it is \<open>Testing\<close> exactly when it
  contains none of these and one of \<open>vitest\<close>, \<open>jest\<close>, \<open>bun test\<close>, \<open>npm test\<close>,
  \<open>pytest\<close>, \<open>go test\<close>; else a \<open>bash\<close> tool with a non-empty command is
  \<open>Running command\<close>. In the three cases the tool output is \<open>Running:\<close> and
  \<open>rawCommand\<close> cut at 50 characters, where \<open>rawCommand\<close> is the raw \<open>parsed.command\<close>
  in the flat shape and the lower-cased command in the Claude shape. In every
  other case the write rules decide.

  \<open>detectStepFromLine\<close>, on a \<open>tool_call\<close> event whose name is \<open>bash\<close> in lower
  case, whose \<open>input.file_path || input.path || ""\<close> and \<open>input.command || ""\<close> are
  strings and whose command does not contain \<open>prettier\<close>: \<open>Linting\<close> exactly when
  the command contains \<open>lint\<close>, \<open>eslint\<close> or \<open>biome\<close>; \<open>Testing\<close> exactly when it
  contains none of these and contains \<open>test\<close>, \<open>vitest\<close> or \<open>jest\<close>;
  \<open>Running command\<close> in every other case; the tool output is \<open>Running:\<close> and the
  lower-cased command cut at 50 characters when the command is not empty, and
  the event carries the tracked todos when there are any.
\<close>

theorem C3_marker_rules:
  "(startsWith (trim line) ''{'' \<and> parse (trim line) = Inr p
      \<and> extractToolFromClaudeFormat N (Some p) = Inr ct \<and> toolFields N (Some p) ct = Inr tf
      \<and> tf_toolName tf \<notin> {''read'', ''glob'', ''grep''}
      \<and> (tf_toolName tf = ''bash'' \<or> tf_command tf \<noteq> [])
      \<and> \<not> includes_str (tf_command tf) ''git commit''
      \<and> \<not> includes_str (tf_description tf) ''git commit''
      \<and> \<not> includes_str (tf_command tf) ''git add''
      \<and> \<not> includes_str (tf_description tf) ''git add''
      \<and> lint = (includes_str (tf_command tf) ''lint'' \<or> includes_str (tf_command tf) ''eslint''
                 \<or> includes_str (tf_command tf) ''biome''
                 \<or> includes_str (tf_command tf) ''prettier'')
      \<and> test = (includes_str (tf_command tf) ''vitest'' \<or> includes_str (tf_command tf) ''jest''
                 \<or> includes_str (tf_command tf) ''bun test''
                 \<or> includes_str (tf_command tf) ''npm test''
                 \<or> includes_str (tf_command tf) ''pytest''
                 \<or> includes_str (tf_command tf) ''go test'')
    \<longrightarrow> (\<exists>r. (tf_command tf \<noteq> [] \<longrightarrow>
                rawCommand N (Some p) ct = JStr r
              \<and> (case ct of
                    Some c \<Rightarrow> r = tf_command tf
                  | None \<Rightarrow> readProp p ''command'' = Some (JStr r)))
           \<and> detectStepFromOutput N parse line =
               Inr (if lint then
                      Some \<lparr>step = ''Linting'', toolOutput = Some (formatCommand r),
                            diff = None, todos = None\<rparr>
                    else if test then
                      Some \<lparr>step = ''Testing'', toolOutput = Some (formatCommand r),
                            diff = None, todos = None\<rparr>
                    else if tf_toolName tf = ''bash'' \<and> tf_command tf \<noteq> [] then
                      Some \<lparr>step = ''Running command'', toolOutput = Some (formatCommand r),
                            diff = None, todos = None\<rparr>
                    else writeRules tf)))
   \<and> (startsWith (trim line') ''{'' \<and> parse (trim line') = Inr p'
      \<and> readProp p' ''type'' = Some (JStr ''tool_call'')
      \<and> readProp p' ''part'' = Some part
      \<and> readProp part ''name'' = Some (JStr nm) \<and> toLowerCase nm = ''bash''
      \<and> inp = Some (js_or_lit N (readProp part ''input'') (JObj []))
      \<and> js_or_lit N (js_or N (getq inp ''file_path'') (getq inp ''path'')) (JStr []) = JStr rp
      \<and> js_or_lit N (getq inp ''command'') (JStr []) = JStr c
      \<and> cmd = toLowerCase c
      \<and> \<not> includes_str cmd ''git commit'' \<and> \<not> includes_str cmd ''git add''
      \<and> \<not> includes_str cmd ''prettier''
      \<and> lint' = (includes_str cmd ''lint'' \<or> includes_str cmd ''eslint''
                  \<or> includes_str cmd ''biome'')
      \<and> test' = (includes_str cmd ''test'' \<or> includes_str cmd ''vitest''
                  \<or> includes_str cmd ''jest'')
    \<longrightarrow> detectStepFromLine N parse cur line' =
          Inr (Some \<lparr>step = (if lint' then ''Linting'' else if test' then ''Testing''
                             else ''Running command''),
                     toolOutput = (if cmd \<noteq> [] then Some (''Running: '' @ truncate_str cmd 50)
                                   else None),
                     diff = None, todos = (if cur \<noteq> [] then Some cur else None)\<rparr>, cur))"
proof (intro conjI impI; elim conjE)
  assume a: "startsWith (trim line) ''{''" "parse (trim line) = Inr p"
    "extractToolFromClaudeFormat N (Some p) = Inr ct" "toolFields N (Some p) ct = Inr tf"
    and b: "tf_toolName tf \<notin> {''read'', ''glob'', ''grep''}"
    "tf_toolName tf = ''bash'' \<or> tf_command tf \<noteq> []"
    "\<not> includes_str (tf_command tf) ''git commit''"
    "\<not> includes_str (tf_description tf) ''git commit''"
    "\<not> includes_str (tf_command tf) ''git add''"
    "\<not> includes_str (tf_description tf) ''git add''"
    "lint = (includes_str (tf_command tf) ''lint'' \<or> includes_str (tf_command tf) ''eslint''
                 \<or> includes_str (tf_command tf) ''biome''
                 \<or> includes_str (tf_command tf) ''prettier'')"
    "test = (includes_str (tf_command tf) ''vitest'' \<or> includes_str (tf_command tf) ''jest''
                 \<or> includes_str (tf_command tf) ''bun test''
                 \<or> includes_str (tf_command tf) ''npm test''
                 \<or> includes_str (tf_command tf) ''pytest''
                 \<or> includes_str (tf_command tf) ''go test'')"
  obtain r where r: "tf_command tf \<noteq> [] \<longrightarrow> rawCommand N (Some p) ct = JStr r \<and> r \<noteq> []"
    and rc: "tf_command tf \<noteq> [] \<longrightarrow>
               (case ct of
                  Some c \<Rightarrow> r = tf_command tf
                | None \<Rightarrow> readProp p ''command'' = Some (JStr r))"
    using rawCommand_is_string[OF a(4)] by (cases "tf_command tf = []") auto
  note cf = classifyFields_markers[OF b r, of N]
  have "detectStepFromOutput N parse line =
          try_catch (classifyFields N (rawCommand N (Some p) ct) tf) (Inr None)"
    using a by (rule detectStepFromOutput_fields)
  also have "\<dots> = Inr (if lint then
                      Some \<lparr>step = ''Linting'', toolOutput = Some (formatCommand r),
                            diff = None, todos = None\<rparr>
                    else if test then
                      Some \<lparr>step = ''Testing'', toolOutput = Some (formatCommand r),
                            diff = None, todos = None\<rparr>
                    else if tf_toolName tf = ''bash'' \<and> tf_command tf \<noteq> [] then
                      Some \<lparr>step = ''Running command'', toolOutput = Some (formatCommand r),
                            diff = None, todos = None\<rparr>
                    else writeRules tf)"
    unfolding cf by simp
  finally show "\<exists>r. (tf_command tf \<noteq> [] \<longrightarrow>
                rawCommand N (Some p) ct = JStr r
              \<and> (case ct of
                    Some c \<Rightarrow> r = tf_command tf
                  | None \<Rightarrow> readProp p ''command'' = Some (JStr r)))
           \<and> detectStepFromOutput N parse line =
               Inr (if lint then
                      Some \<lparr>step = ''Linting'', toolOutput = Some (formatCommand r),
                            diff = None, todos = None\<rparr>
                    else if test then
                      Some \<lparr>step = ''Testing'', toolOutput = Some (formatCommand r),
                            diff = None, todos = None\<rparr>
                    else if tf_toolName tf = ''bash'' \<and> tf_command tf \<noteq> [] then
                      Some \<lparr>step = ''Running command'', toolOutput = Some (formatCommand r),
                            diff = None, todos = None\<rparr>
                    else writeRules tf)"
    using r rc by blast
next
  assume a: "startsWith (trim line') ''{''" "parse (trim line') = Inr p'"
    "readProp p' ''type'' = Some (JStr ''tool_call'')"
    "readProp p' ''part'' = Some part"
    "readProp part ''name'' = Some (JStr nm)" "toLowerCase nm = ''bash''"
    "inp = Some (js_or_lit N (readProp part ''input'') (JObj []))"
    "js_or_lit N (js_or N (getq inp ''file_path'') (getq inp ''path'')) (JStr []) = JStr rp"
    "js_or_lit N (getq inp ''command'') (JStr []) = JStr c"
    and c: "cmd = toLowerCase c"
    and b: "\<not> includes_str cmd ''git commit''" "\<not> includes_str cmd ''git add''"
    "lint' = (includes_str cmd ''lint'' \<or> includes_str cmd ''eslint''
                  \<or> includes_str cmd ''biome'')"
    "test' = (includes_str cmd ''test'' \<or> includes_str cmd ''vitest''
                  \<or> includes_str cmd ''jest'')"
  show "detectStepFromLine N parse cur line' =
          Inr (Some \<lparr>step = (if lint' then ''Linting'' else if test' then ''Testing''
                             else ''Running command''),
                     toolOutput = (if cmd \<noteq> [] then Some (''Running: '' @ truncate_str cmd 50)
                                   else None),
                     diff = None, todos = (if cur \<noteq> [] then Some cur else None)\<rparr>, cur)"
    unfolding detectStepFromLine_bash[where parse = parse and line = line', OF a, of cur]
      c[symmetric] oc_bashRules_markers[OF b, of cur]
    by (rule refl)
qed


text \<open>
  C3 as stated fails twice. A command with a lint marker and a test marker is
  \<open>Linting\<close>, so \<open>npm test\<close> in the command does not make the step \<open>Testing\<close>. And
  the OpenCode classifier takes any \<open>test\<close> for a test marker: \<open>make test\<close>, which
  has none of the six listed markers, is \<open>Testing\<close> there.
\<close>

theorem C3_counterexample:
  \<open>includes_str ''npm run lint && npm test'' ''npm test''
   \<and> detectStepFromOutput natNumbers
        (parseTable
           [(''{"tool":"bash","command":"npm run lint && npm test"}'',
             JObj [(''tool'', JStr ''bash''), (''command'', JStr ''npm run lint && npm test'')])])
        ''{"tool":"bash","command":"npm run lint && npm test"}''
       = Inr (Some \<lparr>step = ''Linting'', toolOutput = Some ''Running: npm run lint && npm test'',
                     diff = None, todos = None\<rparr>)
   \<and> \<not> (includes_str ''make test'' ''lint'' \<or> includes_str ''make test'' ''eslint''
          \<or> includes_str ''make test'' ''biome'' \<or> includes_str ''make test'' ''prettier''
          \<or> includes_str ''make test'' ''vitest'' \<or> includes_str ''make test'' ''jest''
          \<or> includes_str ''make test'' ''bun test'' \<or> includes_str ''make test'' ''npm test''
          \<or> includes_str ''make test'' ''pytest'' \<or> includes_str ''make test'' ''go test'')
   \<and> detectStepFromLine natNumbers
        (parseTable
           [(''{"type":"tool_call","part":{"name":"bash","input":{"command":"make test"}}}'',
             JObj [(''type'', JStr ''tool_call''),
                   (''part'', JObj [(''name'', JStr ''bash''),
                      (''input'', JObj [(''command'', JStr ''make test'')])])])])
        []
        ''{"type":"tool_call","part":{"name":"bash","input":{"command":"make test"}}}''
       = Inr (Some \<lparr>step = ''Testing'', toolOutput = Some ''Running: make test'',
                     diff = None, todos = None\<rparr>, [])\<close>
  by code_simp

text \<open>
  The OpenCode classifier has no \<open>prettier\<close> marker, where \<open>detectStepFromOutput\<close> has
  one: the same command is \<open>Linting\<close> there and \<open>Running command\<close> here.
\<close>

lemma oc_prettier_is_running_command:
  \<open>detectStepFromOutput natNumbers
        (parseTable
           [(''{"tool":"bash","command":"prettier --check ."}'',
             JObj [(''tool'', JStr ''bash''), (''command'', JStr ''prettier --check .'')])])
        ''{"tool":"bash","command":"prettier --check ."}''
       = Inr (Some \<lparr>step = ''Linting'', toolOutput = Some ''Running: prettier --check .'',
                     diff = None, todos = None\<rparr>)
   \<and> detectStepFromLine natNumbers
        (parseTable
           [(''{"type":"tool_call","part":{"name":"bash","input":{"command":"prettier --check ."}}}'',
             JObj [(''type'', JStr ''tool_call''),
                   (''part'', JObj [(''name'', JStr ''bash''),
                      (''input'', JObj [(''command'', JStr ''prettier --check .'')])])])])
        []
        ''{"type":"tool_call","part":{"name":"bash","input":{"command":"prettier --check ."}}}''
       = Inr (Some \<lparr>step = ''Running command'', toolOutput = Some ''Running: prettier --check .'',
                     diff = None, todos = None\<rparr>, [])\<close>
  by code_simp

theorem C3_marker_rules_witness:
  \<open>detectStepFromOutput natNumbers
     (parseTable
        [(''{"tool":"Bash","command":"npx vitest run"}'',
          JObj [(''tool'', JStr ''Bash''), (''command'', JStr ''npx vitest run'')]),
         (''{"type":"tool_call","part":{"name":"bash","input":{"command":"ls -la"}}}'',
          JObj [(''type'', JStr ''tool_call''),
                (''part'', JObj [(''name'', JStr ''bash''),
                   (''input'', JObj [(''command'', JStr ''ls -la'')])])])])
     ''{"tool":"Bash","command":"npx vitest run"}''
    = Inr (Some \<lparr>step = ''Testing'', toolOutput = Some ''Running: npx vitest run'',
                  diff = None, todos = None\<rparr>)
   \<and> detectStepFromLine natNumbers
     (parseTable
        [(''{"tool":"Bash","command":"npx vitest run"}'',
          JObj [(''tool'', JStr ''Bash''), (''command'', JStr ''npx vitest run'')]),
         (''{"type":"tool_call","part":{"name":"bash","input":{"command":"ls -la"}}}'',
          JObj [(''type'', JStr ''tool_call''),
                (''part'', JObj [(''name'', JStr ''bash''),
                   (''input'', JObj [(''command'', JStr ''ls -la'')])])])])
     []
     ''{"type":"tool_call","part":{"name":"bash","input":{"command":"ls -la"}}}''
    = Inr (Some \<lparr>step = ''Running command'', toolOutput = Some ''Running: ls -la'',
                  diff = None, todos = None\<rparr>, [])\<close>
proof -
  let ?lineA = \<open>''{"tool":"Bash","command":"npx vitest run"}''\<close>
  let ?lineB = \<open>''{"type":"tool_call","part":{"name":"bash","input":{"command":"ls -la"}}}''\<close>
  let ?pA = "JObj [(''tool'', JStr ''Bash''), (''command'', JStr ''npx vitest run'')] :: nat json"
  let ?part = "JObj [(''name'', JStr ''bash''), (''input'', JObj [(''command'', JStr ''ls -la'')])]
               :: nat json"
  let ?pB = "JObj [(''type'', JStr ''tool_call''), (''part'', ?part)]"
  let ?P = "parseTable [(?lineA, ?pA), (?lineB, ?pB)]"
  let ?tf = "\<lparr>tf_toolName = ''bash'', tf_filePath = [],
              tf_command = ''npx vitest run'', tf_description = []\<rparr>"
  let ?inp = "Some (JObj [(''command'', JStr ''ls -la'')] :: nat json)"
  have A: "startsWith (trim ?lineA) ''{'' \<and> ?P (trim ?lineA) = Inr ?pA
      \<and> extractToolFromClaudeFormat natNumbers (Some ?pA) = Inr None
      \<and> toolFields natNumbers (Some ?pA) None = Inr ?tf
      \<and> tf_toolName ?tf \<notin> {''read'', ''glob'', ''grep''}
      \<and> (tf_toolName ?tf = ''bash'' \<or> tf_command ?tf \<noteq> [])
      \<and> \<not> includes_str (tf_command ?tf) ''git commit''
      \<and> \<not> includes_str (tf_description ?tf) ''git commit''
      \<and> \<not> includes_str (tf_command ?tf) ''git add''
      \<and> \<not> includes_str (tf_description ?tf) ''git add''
      \<and> False = (includes_str (tf_command ?tf) ''lint'' \<or> includes_str (tf_command ?tf) ''eslint''
                 \<or> includes_str (tf_command ?tf) ''biome''
                 \<or> includes_str (tf_command ?tf) ''prettier'')
      \<and> True = (includes_str (tf_command ?tf) ''vitest'' \<or> includes_str (tf_command ?tf) ''jest''
                 \<or> includes_str (tf_command ?tf) ''bun test''
                 \<or> includes_str (tf_command ?tf) ''npm test''
                 \<or> includes_str (tf_command ?tf) ''pytest''
                 \<or> includes_str (tf_command ?tf) ''go test'')"
    by code_simp
  have B: "startsWith (trim ?lineB) ''{'' \<and> ?P (trim ?lineB) = Inr ?pB
      \<and> readProp ?pB ''type'' = Some (JStr ''tool_call'')
      \<and> readProp ?pB ''part'' = Some ?part
      \<and> readProp ?part ''name'' = Some (JStr ''bash'') \<and> toLowerCase ''bash'' = ''bash''
      \<and> ?inp = Some (js_or_lit natNumbers (readProp ?part ''input'') (JObj []))
      \<and> js_or_lit natNumbers (js_or natNumbers (getq ?inp ''file_path'') (getq ?inp ''path''))
            (JStr []) = JStr []
      \<and> js_or_lit natNumbers (getq ?inp ''command'') (JStr []) = JStr ''ls -la''
      \<and> ''ls -la'' = toLowerCase ''ls -la''
      \<and> \<not> includes_str ''ls -la'' ''git commit'' \<and> \<not> includes_str ''ls -la'' ''git add''
      \<and> \<not> includes_str ''ls -la'' ''prettier''
      \<and> False = (includes_str ''ls -la'' ''lint'' \<or> includes_str ''ls -la'' ''eslint''
                  \<or> includes_str ''ls -la'' ''biome'')
      \<and> False = (includes_str ''ls -la'' ''test'' \<or> includes_str ''ls -la'' ''vitest''
                  \<or> includes_str ''ls -la'' ''jest'')"
    by code_simp
  have raw: "rawCommand natNumbers (Some ?pA) None = JStr ''npx vitest run''"
    by code_simp
  have echo: "formatCommand ''npx vitest run'' = ''Running: npx vitest run''"
    "''Running: '' @ truncate_str ''ls -la'' 50 = ''Running: ls -la''"
    by code_simp+
  have ne: "tf_command ?tf \<noteq> []" "''ls -la'' \<noteq> []" by simp_all
  note C = C3_marker_rules [where line = ?lineA and parse = ?P and p = ?pA and N = natNumbers and ct = None
      and tf = ?tf and lint = False and test = True
      and line' = ?lineB and p' = ?pB and part = ?part and nm = \<open>''bash''\<close>
      and inp = ?inp and rp = \<open>[]\<close> and c = \<open>''ls -la''\<close> and cmd = \<open>''ls -la''\<close>
      and lint' = False and test' = False and cur = \<open>[]\<close>]
  from C[THEN conjunct1, THEN mp, OF A] ne(1) obtain r where
    r: "rawCommand natNumbers (Some ?pA) None = JStr r"
    and ra: "detectStepFromOutput natNumbers ?P ?lineA =
               Inr (Some \<lparr>step = ''Testing'', toolOutput = Some (formatCommand r),
                          diff = None, todos = None\<rparr>)"
    by (simp only: if_True if_False) blast
  from r raw have "r = ''npx vitest run''" by (simp only: json.inject)
  with ra echo(1) have 1: "detectStepFromOutput natNumbers ?P ?lineA =
               Inr (Some \<lparr>step = ''Testing'', toolOutput = Some ''Running: npx vitest run'',
                  diff = None, todos = None\<rparr>)"
    by (simp only:)
  from C[THEN conjunct2, THEN mp, OF B] echo(2) ne(2)
  have 2: "detectStepFromLine natNumbers ?P [] ?lineB =
      Inr (Some \<lparr>step = ''Running command'', toolOutput = Some ''Running: ls -la'',
                  diff = None, todos = None\<rparr>, [])"
    by (simp only: if_True if_False simp_thms)
  from 1 2 show ?thesis by (rule conjI)
qed


section \<open>Write-family invocations\<close>

lemma classifyFields_write:
  assumes "tf_toolName tf = ''write'' \<or> tf_toolName tf = ''edit''"
    and "\<not> includes_str (tf_command tf) ''git commit''"
    and "\<not> includes_str (tf_command tf) ''git add''"
    and "tf_command tf \<noteq> [] \<longrightarrow>
           \<not> includes_str (tf_description tf) ''git commit''
         \<and> \<not> includes_str (tf_description tf) ''git add''"
    and "\<not> (includes_str (tf_command tf) ''lint'' \<or> includes_str (tf_command tf) ''eslint''
            \<or> includes_str (tf_command tf) ''biome''
            \<or> includes_str (tf_command tf) ''prettier'')"
    and "\<not> (includes_str (tf_command tf) ''vitest'' \<or> includes_str (tf_command tf) ''jest''
            \<or> includes_str (tf_command tf) ''bun test''
            \<or> includes_str (tf_command tf) ''npm test''
            \<or> includes_str (tf_command tf) ''pytest''
            \<or> includes_str (tf_command tf) ''go test'')"
  shows "classifyFields N raw tf =
           Inr (Some \<lparr>step = (if includes_str (toLowerCase (tf_filePath tf)) ''.test.''
                                 \<or> includes_str (toLowerCase (tf_filePath tf)) ''.spec.''
                                 \<or> includes_str (toLowerCase (tf_filePath tf)) ''__tests__''
                                 \<or> includes_str (toLowerCase (tf_filePath tf)) ''_test.go''
                              then ''Writing tests'' else ''Implementing''),
                      toolOutput = (if tf_filePath tf \<noteq> []
                                    then Some (truncate_str (tf_filePath tf) 60) else None),
                      diff = None, todos = None\<rparr>)"
proof -
  from assms(1) have tn: "tf_toolName tf \<noteq> ''bash''" "tf_toolName tf \<noteq> []"
    "tf_toolName tf \<noteq> ''read''" "tf_toolName tf \<noteq> ''glob''" "tf_toolName tf \<noteq> ''grep''"
    by auto
  have w: "writeRules tf =
           Some \<lparr>step = (if includes_str (toLowerCase (tf_filePath tf)) ''.test.''
                                 \<or> includes_str (toLowerCase (tf_filePath tf)) ''.spec.''
                                 \<or> includes_str (toLowerCase (tf_filePath tf)) ''__tests__''
                                 \<or> includes_str (toLowerCase (tf_filePath tf)) ''_test.go''
                              then ''Writing tests'' else ''Implementing''),
                      toolOutput = (if tf_filePath tf \<noteq> []
                                    then Some (truncate_str (tf_filePath tf) 60) else None),
                      diff = None, todos = (None :: 'a TodoItem list option)\<rparr>"
    using assms(1)
    by (simp add: writeRules_def isTestFile_def pathEcho_def formatFilePath_def Let_def)
  show ?thesis
  proof (cases "tf_command tf = []")
    case True
    with tn show ?thesis unfolding classifyFields_def Let_def w by simp
  next
    case False
    with assms(2-6) tn have "bashRules N raw tf = Inr None"
      by (simp add: bashRules_def)
    with False tn show ?thesis unfolding classifyFields_def Let_def w by simp
  qed
qed

lemma oc_toolRules_write:
  assumes "tn = ''write'' \<or> tn = ''edit''"
    and "js_or_lit N (js_or N (getq inp ''file_path'') (getq inp ''path'')) (JStr []) = JStr rp"
    and "js_or_lit N (getq inp ''command'') (JStr []) = JStr c"
    and "js_or_lit N (js_or N (getq inp ''old_string'') (getq inp ''oldString'')) (JStr [])
           = JStr old"
    and "js_or_lit N (js_or N (getq inp ''content'')
                        (js_or N (getq inp ''new_string'') (getq inp ''newString''))) (JStr [])
           = JStr new"
  shows "toolRules N cur tn inp =
           bindE (createDiff N rp (JStr old) (JStr new) 4) (\<lambda>d.
             Inr (Some \<lparr>step = (if oc_isTestFile (toLowerCase rp) then ''Writing tests''
                                  else ''Implementing''),
                        toolOutput = None, diff = d, todos = carryTodos cur\<rparr>))"
  using assms by (auto simp: toolRules_def Let_def)

lemma detectStepFromLine_write:
  assumes "startsWith (trim line) ''{''" and "parse (trim line) = Inr p"
    and "readProp p ''type'' = Some (JStr ''tool_call'')"
    and "readProp p ''part'' = Some part"
    and "readProp part ''name'' = Some (JStr nm)"
    and "toLowerCase nm = ''write'' \<or> toLowerCase nm = ''edit''"
    and "inp = Some (js_or_lit N (readProp part ''input'') (JObj []))"
    and "js_or_lit N (js_or N (getq inp ''file_path'') (getq inp ''path'')) (JStr []) = JStr rp"
    and "js_or_lit N (getq inp ''command'') (JStr []) = JStr c"
    and "js_or_lit N (js_or N (getq inp ''old_string'') (getq inp ''oldString'')) (JStr [])
           = JStr old"
    and "js_or_lit N (js_or N (getq inp ''content'')
                        (js_or N (getq inp ''new_string'') (getq inp ''newString''))) (JStr [])
           = JStr new"
    and "createDiff N rp (JStr old) (JStr new) 4 = Inr d"
  shows "detectStepFromLine N parse cur line =
           Inr (Some \<lparr>step = (if oc_isTestFile (toLowerCase rp) then ''Writing tests''
                                else ''Implementing''),
                      toolOutput = None, diff = d, todos = carryTodos cur\<rparr>, cur)"
proof -
  define tn where "tn = toLowerCase nm"
  have tn_eq: "toLowerCase nm = tn" by (simp add: tn_def)
  from assms(6) have tn: "tn = ''write'' \<or> tn = ''edit''" by (simp add: tn_def)
  then have ne: "tn \<noteq> []" and tw: "todoWrite N tn inp = Inr None"
    by (auto simp: todoWrite_other)
  show ?thesis
    using detectStepFromLine_toolCall
      [where cur = cur and parse = parse and line = line, OF assms(1-5) tn_eq ne assms(7)]
      oc_toolRules_write[OF tn assms(8-11), of cur] tw assms(12)
    by simp
qed

text \<open>
  C4 (as the code has it), with paths and commands compared in lower case.

  \<open>detectStepFromOutput\<close>, on a line that starts with a brace once trimmed, that
  parses, from which \<open>extractToolFromClaudeFormat\<close> and the flat extraction return
  the fields without throwing, whose tool is \<open>write\<close> or \<open>edit\<close>, and on which no
  command rule returns first (the command contains no \<open>git commit\<close>, \<open>git add\<close>,
  lint or test marker, and when there is a command the description contains no
  \<open>git commit\<close> and no \<open>git add\<close>): the step is \<open>Writing tests\<close> exactly when the
  path contains \<open>.test.\<close>, \<open>.spec.\<close>, \<open>__tests__\<close> or \<open>_test.go\<close>, and \<open>Implementing\<close>
  otherwise; the tool output is the path, cut at 60 characters, when the path is
  not empty.

  \<open>detectStepFromLine\<close>, on a \<open>tool_call\<close> event whose name is \<open>write\<close> or \<open>edit\<close> in
  lower case, whose \<open>input.file_path || input.path || ""\<close>, \<open>input.command || ""\<close>,
  \<open>input.old_string || input.oldString || ""\<close> and
  \<open>input.content || input.new_string || input.newString || ""\<close> are strings, and
  whose path does not contain \<open>_test.go\<close>: the step is \<open>Writing tests\<close> exactly
  when the path contains \<open>.test.\<close>, \<open>.spec.\<close> or \<open>__tests__\<close>, and \<open>Implementing\<close>
  otherwise; the event carries the diff preview of the two contents and the
  tracked todos when there are any.
\<close>

theorem C4_write_rules:
  "(startsWith (trim line) ''{'' \<and> parse (trim line) = Inr p
      \<and> extractToolFromClaudeFormat N (Some p) = Inr ct \<and> toolFields N (Some p) ct = Inr tf
      \<and> (tf_toolName tf = ''write'' \<or> tf_toolName tf = ''edit'')
      \<and> \<not> includes_str (tf_command tf) ''git commit''
      \<and> \<not> includes_str (tf_command tf) ''git add''
      \<and> (tf_command tf \<noteq> [] \<longrightarrow>
             \<not> includes_str (tf_description tf) ''git commit''
           \<and> \<not> includes_str (tf_description tf) ''git add'')
      \<and> \<not> (includes_str (tf_command tf) ''lint'' \<or> includes_str (tf_command tf) ''eslint''
              \<or> includes_str (tf_command tf) ''biome''
              \<or> includes_str (tf_command tf) ''prettier'')
      \<and> \<not> (includes_str (tf_command tf) ''vitest'' \<or> includes_str (tf_command tf) ''jest''
              \<or> includes_str (tf_command tf) ''bun test''
              \<or> includes_str (tf_command tf) ''npm test''
              \<or> includes_str (tf_command tf) ''pytest''
              \<or> includes_str (tf_command tf) ''go test'')
      \<and> fp = toLowerCase (tf_filePath tf)
    \<longrightarrow> detectStepFromOutput N parse line =
          Inr (Some \<lparr>step = (if includes_str fp ''.test.'' \<or> includes_str fp ''.spec.''
                                \<or> includes_str fp ''__tests__'' \<or> includes_str fp ''_test.go''
                             then ''Writing tests'' else ''Implementing''),
                     toolOutput = (if tf_filePath tf \<noteq> []
                                   then Some (truncate_str (tf_filePath tf) 60) else None),
                     diff = None, todos = None\<rparr>))
   \<and> (startsWith (trim line') ''{'' \<and> parse (trim line') = Inr p'
      \<and> readProp p' ''type'' = Some (JStr ''tool_call'')
      \<and> readProp p' ''part'' = Some part
      \<and> readProp part ''name'' = Some (JStr nm)
      \<and> (toLowerCase nm = ''write'' \<or> toLowerCase nm = ''edit'')
      \<and> inp = Some (js_or_lit N (readProp part ''input'') (JObj []))
      \<and> js_or_lit N (js_or N (getq inp ''file_path'') (getq inp ''path'')) (JStr []) = JStr rp
      \<and> js_or_lit N (getq inp ''command'') (JStr []) = JStr c
      \<and> js_or_lit N (js_or N (getq inp ''old_string'') (getq inp ''oldString'')) (JStr [])
           = JStr old
      \<and> js_or_lit N (js_or N (getq inp ''content'')
                        (js_or N (getq inp ''new_string'') (getq inp ''newString''))) (JStr [])
           = JStr new
      \<and> fp' = toLowerCase rp
      \<and> \<not> includes_str fp' ''_test.go''
    \<longrightarrow> (\<exists>d. createDiff N rp (JStr old) (JStr new) 4 = Inr d
          \<and> detectStepFromLine N parse cur line' =
             Inr (Some \<lparr>step = (if includes_str fp' ''.test.'' \<or> includes_str fp' ''.spec.''
                                   \<or> includes_str fp' ''__tests__''
                                then ''Writing tests'' else ''Implementing''),
                        toolOutput = None, diff = d,
                        todos = (if cur \<noteq> [] then Some cur else None)\<rparr>, cur)))"
proof (intro conjI impI; elim conjE)
  assume a: "startsWith (trim line) ''{''" "parse (trim line) = Inr p"
    "extractToolFromClaudeFormat N (Some p) = Inr ct" "toolFields N (Some p) ct = Inr tf"
    and b: "tf_toolName tf = ''write'' \<or> tf_toolName tf = ''edit''"
    "\<not> includes_str (tf_command tf) ''git commit''"
    "\<not> includes_str (tf_command tf) ''git add''"
    "tf_command tf \<noteq> [] \<longrightarrow>
       \<not> includes_str (tf_description tf) ''git commit''
     \<and> \<not> includes_str (tf_description tf) ''git add''"
    "\<not> (includes_str (tf_command tf) ''lint'' \<or> includes_str (tf_command tf) ''eslint''
        \<or> includes_str (tf_command tf) ''biome''
        \<or> includes_str (tf_command tf) ''prettier'')"
    "\<not> (includes_str (tf_command tf) ''vitest'' \<or> includes_str (tf_command tf) ''jest''
        \<or> includes_str (tf_command tf) ''bun test''
        \<or> includes_str (tf_command tf) ''npm test''
        \<or> includes_str (tf_command tf) ''pytest''
        \<or> includes_str (tf_command tf) ''go test'')"
    and fp: "fp = toLowerCase (tf_filePath tf)"
  show "detectStepFromOutput N parse line =
          Inr (Some \<lparr>step = (if includes_str fp ''.test.'' \<or> includes_str fp ''.spec.''
                                \<or> includes_str fp ''__tests__'' \<or> includes_str fp ''_test.go''
                             then ''Writing tests'' else ''Implementing''),
                     toolOutput = (if tf_filePath tf \<noteq> []
                                   then Some (truncate_str (tf_filePath tf) 60) else None),
                     diff = None, todos = None\<rparr>)"
    unfolding detectStepFromOutput_fields[where parse = parse and line = line, OF a]
      classifyFields_write[OF b] fp
    by simp
next
  assume a: "startsWith (trim line') ''{''" "parse (trim line') = Inr p'"
    "readProp p' ''type'' = Some (JStr ''tool_call'')"
    "readProp p' ''part'' = Some part"
    "readProp part ''name'' = Some (JStr nm)"
    "toLowerCase nm = ''write'' \<or> toLowerCase nm = ''edit''"
    "inp = Some (js_or_lit N (readProp part ''input'') (JObj []))"
    "js_or_lit N (js_or N (getq inp ''file_path'') (getq inp ''path'')) (JStr []) = JStr rp"
    "js_or_lit N (getq inp ''command'') (JStr []) = JStr c"
    "js_or_lit N (js_or N (getq inp ''old_string'') (getq inp ''oldString'')) (JStr [])
           = JStr old"
    "js_or_lit N (js_or N (getq inp ''content'')
                        (js_or N (getq inp ''new_string'') (getq inp ''newString''))) (JStr [])
           = JStr new"
    and fp: "fp' = toLowerCase rp"
  obtain d where d: "createDiff N rp (JStr old) (JStr new) 4 = Inr d"
    using createDiff_strings[of N rp old new 4] by simp
  have t: "oc_isTestFile (toLowerCase rp) =
             (includes_str fp' ''.test.'' \<or> includes_str fp' ''.spec.''
              \<or> includes_str fp' ''__tests__'')"
    by (simp add: oc_isTestFile_def fp toLowerCase_idem Let_def)
  have "detectStepFromLine N parse cur line' =
             Inr (Some \<lparr>step = (if includes_str fp' ''.test.'' \<or> includes_str fp' ''.spec.''
                                   \<or> includes_str fp' ''__tests__''
                                then ''Writing tests'' else ''Implementing''),
                        toolOutput = None, diff = d,
                        todos = (if cur \<noteq> [] then Some cur else None)\<rparr>, cur)"
    unfolding detectStepFromLine_write[where parse = parse and line = line', OF a d, of cur] t
    by (simp add: carryTodos_def)
  with d show "\<exists>d. createDiff N rp (JStr old) (JStr new) 4 = Inr d
          \<and> detectStepFromLine N parse cur line' =
             Inr (Some \<lparr>step = (if includes_str fp' ''.test.'' \<or> includes_str fp' ''.spec.''
                                   \<or> includes_str fp' ''__tests__''
                                then ''Writing tests'' else ''Implementing''),
                        toolOutput = None, diff = d,
                        todos = (if cur \<noteq> [] then Some cur else None)\<rparr>, cur)"
    by blast
qed

text \<open>
  C4 as stated fails on write-family invocations that the classifiers treat
  otherwise by design. A truthy content that is not a string makes \<open>split\<close> throw in
  \<open>createDiff\<close>, and the \<open>catch\<close> returns \<open>null\<close>. And in \<open>detectStepFromOutput\<close> the
  command rules come before the write rules: a write call that carries the
  command \<open>git add x.test.ts\<close> is \<open>Staging\<close>.
\<close>

theorem C4_counterexample:
  \<open>detectStepFromLine natNumbers
     (parseTable
        [(''{"type":"tool_call","part":{"name":"edit","input":{"file_path":"src/app.ts","new_string":5}}}'',
          JObj [(''type'', JStr ''tool_call''),
                (''part'', JObj [(''name'', JStr ''edit''),
                   (''input'', JObj [(''file_path'', JStr ''src/app.ts''),
                                     (''new_string'', JNum 5)])])])])
     []
     ''{"type":"tool_call","part":{"name":"edit","input":{"file_path":"src/app.ts","new_string":5}}}''
    = Inr (None, [])
   \<and> detectStepFromOutput natNumbers
     (parseTable
        [(''{"tool":"write","path":"x.test.ts","command":"git add x.test.ts"}'',
          JObj [(''tool'', JStr ''write''), (''path'', JStr ''x.test.ts''),
                (''command'', JStr ''git add x.test.ts'')])])
     ''{"tool":"write","path":"x.test.ts","command":"git add x.test.ts"}''
    = Inr (Some \<lparr>step = ''Staging'', toolOutput = None, diff = None, todos = None\<rparr>)\<close>
  by code_simp

text \<open>
  \<open>OpenCodeEngine.isTestFile\<close> has no \<open>_test.go\<close> marker, where \<open>isTestFile\<close> of
  \<open>base.ts\<close> has one: the same Go test file is \<open>Writing tests\<close> there and
  \<open>Implementing\<close> here.
\<close>

lemma oc_go_test_file_is_implementing:
  \<open>detectStepFromOutput natNumbers
     (parseTable
        [(''{"tool":"write","path":"pkg/foo_test.go"}'',
          JObj [(''tool'', JStr ''write''), (''path'', JStr ''pkg/foo_test.go'')])])
     ''{"tool":"write","path":"pkg/foo_test.go"}''
    = Inr (Some \<lparr>step = ''Writing tests'', toolOutput = Some ''pkg/foo_test.go'',
                  diff = None, todos = None\<rparr>)
   \<and> detectStepFromLine natNumbers
     (parseTable
        [(''{"type":"tool_call","part":{"name":"write","input":{"file_path":"pkg/foo_test.go","content":"package pkg"}}}'',
          JObj [(''type'', JStr ''tool_call''),
                (''part'', JObj [(''name'', JStr ''write''),
                   (''input'', JObj [(''file_path'', JStr ''pkg/foo_test.go''),
                                     (''content'', JStr ''package pkg'')])])])])
     []
     ''{"type":"tool_call","part":{"name":"write","input":{"file_path":"pkg/foo_test.go","content":"package pkg"}}}''
    = Inr (Some \<lparr>step = ''Implementing'', toolOutput = None,
                  diff = Some \<lparr>diff_filePath = ''pkg/foo_test.go'', oldLines = None,
                               newLines = Some [''package pkg'']\<rparr>,
                  todos = None\<rparr>, [])\<close>
  by code_simp

text \<open>A write call that carries a command without markers is classified by its path.\<close>

lemma write_with_plain_command_example:
  \<open>detectStepFromOutput natNumbers
     (parseTable
        [(''{"tool":"write","path":"x.test.ts","command":"ls"}'',
          JObj [(''tool'', JStr ''write''), (''path'', JStr ''x.test.ts''),
                (''command'', JStr ''ls'')])])
     ''{"tool":"write","path":"x.test.ts","command":"ls"}''
    = Inr (Some \<lparr>step = ''Writing tests'', toolOutput = Some ''x.test.ts'',
                  diff = None, todos = None\<rparr>)\<close>
  by code_simp

theorem C4_write_rules_witness:
  \<open>detectStepFromOutput natNumbers
     (parseTable
        [(''{"tool":"Write","path":"src/App.spec.tsx"}'',
          JObj [(''tool'', JStr ''Write''), (''path'', JStr ''src/App.spec.tsx'')]),
         (''{"type":"tool_call","part":{"name":"edit","input":{"file_path":"src/__tests__/a.ts","old_string":"x","new_string":"y"}}}'',
          JObj [(''type'', JStr ''tool_call''),
                (''part'', JObj [(''name'', JStr ''edit''),
                   (''input'', JObj [(''file_path'', JStr ''src/__tests__/a.ts''),
                                     (''old_string'', JStr ''x''),
                                     (''new_string'', JStr ''y'')])])])])
     ''{"tool":"Write","path":"src/App.spec.tsx"}''
    = Inr (Some \<lparr>step = ''Writing tests'', toolOutput = Some ''src/app.spec.tsx'',
                  diff = None, todos = None\<rparr>)
   \<and> detectStepFromLine natNumbers
     (parseTable
        [(''{"tool":"Write","path":"src/App.spec.tsx"}'',
          JObj [(''tool'', JStr ''Write''), (''path'', JStr ''src/App.spec.tsx'')]),
         (''{"type":"tool_call","part":{"name":"edit","input":{"file_path":"src/__tests__/a.ts","old_string":"x","new_string":"y"}}}'',
          JObj [(''type'', JStr ''tool_call''),
                (''part'', JObj [(''name'', JStr ''edit''),
                   (''input'', JObj [(''file_path'', JStr ''src/__tests__/a.ts''),
                                     (''old_string'', JStr ''x''),
                                     (''new_string'', JStr ''y'')])])])])
     []
     ''{"type":"tool_call","part":{"name":"edit","input":{"file_path":"src/__tests__/a.ts","old_string":"x","new_string":"y"}}}''
    = Inr (Some \<lparr>step = ''Writing tests'', toolOutput = None,
                  diff = Some \<lparr>diff_filePath = ''src/__tests__/a.ts'', oldLines = Some [''x''],
                               newLines = Some [''y'']\<rparr>,
                  todos = None\<rparr>, [])\<close>
proof -
  let ?lineA = \<open>''{"tool":"Write","path":"src/App.spec.tsx"}''\<close>
  let ?lineB = \<open>''{"type":"tool_call","part":{"name":"edit","input":{"file_path":"src/__tests__/a.ts","old_string":"x","new_string":"y"}}}''\<close>
  let ?pA = "JObj [(''tool'', JStr ''Write''), (''path'', JStr ''src/App.spec.tsx'')] :: nat json"
  let ?inpj = "JObj [(''file_path'', JStr ''src/__tests__/a.ts''),
                     (''old_string'', JStr ''x''), (''new_string'', JStr ''y'')] :: nat json"
  let ?part = "JObj [(''name'', JStr ''edit''), (''input'', ?inpj)]"
  let ?pB = "JObj [(''type'', JStr ''tool_call''), (''part'', ?part)]"
  let ?P = "parseTable [(?lineA, ?pA), (?lineB, ?pB)]"
  let ?tf = "\<lparr>tf_toolName = ''write'', tf_filePath = ''src/app.spec.tsx'',
              tf_command = [], tf_description = []\<rparr>"
  let ?inp = "Some ?inpj"
  let ?d = "Some \<lparr>diff_filePath = ''src/__tests__/a.ts'', oldLines = Some [''x''],
                   newLines = Some [''y'']\<rparr>"
  have A: "startsWith (trim ?lineA) ''{'' \<and> ?P (trim ?lineA) = Inr ?pA
      \<and> extractToolFromClaudeFormat natNumbers (Some ?pA) = Inr None
      \<and> toolFields natNumbers (Some ?pA) None = Inr ?tf
      \<and> (tf_toolName ?tf = ''write'' \<or> tf_toolName ?tf = ''edit'')
      \<and> \<not> includes_str (tf_command ?tf) ''git commit''
      \<and> \<not> includes_str (tf_command ?tf) ''git add''
      \<and> (tf_command ?tf \<noteq> [] \<longrightarrow>
             \<not> includes_str (tf_description ?tf) ''git commit''
           \<and> \<not> includes_str (tf_description ?tf) ''git add'')
      \<and> \<not> (includes_str (tf_command ?tf) ''lint'' \<or> includes_str (tf_command ?tf) ''eslint''
              \<or> includes_str (tf_command ?tf) ''biome''
              \<or> includes_str (tf_command ?tf) ''prettier'')
      \<and> \<not> (includes_str (tf_command ?tf) ''vitest'' \<or> includes_str (tf_command ?tf) ''jest''
              \<or> includes_str (tf_command ?tf) ''bun test''
              \<or> includes_str (tf_command ?tf) ''npm test''
              \<or> includes_str (tf_command ?tf) ''pytest''
              \<or> includes_str (tf_command ?tf) ''go test'')
      \<and> ''src/app.spec.tsx'' = toLowerCase (tf_filePath ?tf)"
    by code_simp
  have B: "startsWith (trim ?lineB) ''{'' \<and> ?P (trim ?lineB) = Inr ?pB
      \<and> readProp ?pB ''type'' = Some (JStr ''tool_call'')
      \<and> readProp ?pB ''part'' = Some ?part
      \<and> readProp ?part ''name'' = Some (JStr ''edit'')
      \<and> (toLowerCase ''edit'' = ''write'' \<or> toLowerCase ''edit'' = ''edit'')
      \<and> ?inp = Some (js_or_lit natNumbers (readProp ?part ''input'') (JObj []))
      \<and> js_or_lit natNumbers (js_or natNumbers (getq ?inp ''file_path'') (getq ?inp ''path''))
            (JStr []) = JStr ''src/__tests__/a.ts''
      \<and> js_or_lit natNumbers (getq ?inp ''command'') (JStr []) = JStr []
      \<and> js_or_lit natNumbers (js_or natNumbers (getq ?inp ''old_string'') (getq ?inp ''oldString''))
            (JStr []) = JStr ''x''
      \<and> js_or_lit natNumbers (js_or natNumbers (getq ?inp ''content'')
            (js_or natNumbers (getq ?inp ''new_string'') (getq ?inp ''newString''))) (JStr [])
            = JStr ''y''
      \<and> ''src/__tests__/a.ts'' = toLowerCase ''src/__tests__/a.ts''
      \<and> \<not> includes_str ''src/__tests__/a.ts'' ''_test.go''"
    by code_simp
  have mk: "(includes_str ''src/app.spec.tsx'' ''.test.'' \<or> includes_str ''src/app.spec.tsx'' ''.spec.''
             \<or> includes_str ''src/app.spec.tsx'' ''__tests__''
             \<or> includes_str ''src/app.spec.tsx'' ''_test.go'') = True"
    "(includes_str ''src/__tests__/a.ts'' ''.test.'' \<or> includes_str ''src/__tests__/a.ts'' ''.spec.''
             \<or> includes_str ''src/__tests__/a.ts'' ''__tests__'') = True"
    "truncate_str (tf_filePath ?tf) 60 = ''src/app.spec.tsx''"
    "(tf_filePath ?tf \<noteq> []) = True"
    by code_simp+
  have dv: "createDiff natNumbers ''src/__tests__/a.ts'' (JStr ''x'') (JStr ''y'') 4 = Inr ?d"
    by code_simp
  note C = C4_write_rules [where line = ?lineA and parse = ?P and p = ?pA and N = natNumbers and ct = None
      and tf = ?tf and fp = \<open>''src/app.spec.tsx''\<close>
      and line' = ?lineB and p' = ?pB and part = ?part and nm = \<open>''edit''\<close>
      and inp = ?inp and rp = \<open>''src/__tests__/a.ts''\<close> and c = \<open>[]\<close>
      and old = \<open>''x''\<close> and new = \<open>''y''\<close> and fp' = \<open>''src/__tests__/a.ts''\<close>
      and cur = \<open>[]\<close>]
  from C[THEN conjunct1, THEN mp, OF A]
  have 1: "detectStepFromOutput natNumbers ?P ?lineA =
      Inr (Some \<lparr>step = ''Writing tests'', toolOutput = Some ''src/app.spec.tsx'',
                  diff = None, todos = None\<rparr>)"
    unfolding mk by (simp only: if_True)
  from C[THEN conjunct2, THEN mp, OF B] obtain d where
    d: "createDiff natNumbers ''src/__tests__/a.ts'' (JStr ''x'') (JStr ''y'') 4 = Inr d"
    and rb: "detectStepFromLine natNumbers ?P [] ?lineB =
             Inr (Some \<lparr>step = ''Writing tests'', toolOutput = None, diff = d,
                        todos = None\<rparr>, [])"
    unfolding mk by (simp only: if_True if_False simp_thms) blast
  from d dv have "d = ?d" by (simp only: sum.inject)
  with rb have 2: "detectStepFromLine natNumbers ?P [] ?lineB =
             Inr (Some \<lparr>step = ''Writing tests'', toolOutput = None, diff = ?d,
                        todos = None\<rparr>, [])"
    by (simp only:)
  from 1 2 show ?thesis by (rule conjI)
qed



end
